theory Spec2Isabelle
  imports Complex_Main
begin

section \<open>Vectors\<close>

text \<open>
  \<open>Vec\<close> is pygame's \<open>Vector2\<close>: a pair of floats, idealised here as reals. Only the
  operations the sprites and the world use are defined. \<open>normalize\<close> raises
  \<open>ValueError\<close> on a vector of length zero; the raise is the value \<open>None\<close>.
\<close>

type_synonym vec = "real \<times> real"

definition vadd :: "vec \<Rightarrow> vec \<Rightarrow> vec" where
  "vadd a b = (fst a + fst b, snd a + snd b)"

definition vsub :: "vec \<Rightarrow> vec \<Rightarrow> vec" where
  "vsub a b = (fst a - fst b, snd a - snd b)"

definition smul :: "vec \<Rightarrow> real \<Rightarrow> vec" where
  "smul v k = (fst v * k, snd v * k)"

definition vlength :: "vec \<Rightarrow> real" where
  "vlength v = sqrt ((fst v)\<^sup>2 + (snd v)\<^sup>2)"

definition normalize :: "vec \<Rightarrow> vec option" where
  "normalize v = (if vlength v = 0 then None else Some (smul v (1 / vlength v)))"

section \<open>Configuration, helpers and the outside world\<close>

text \<open>
  \<open>config.py\<close> is not part of the available sources, so its constants are the fields
  of a record that every function takes as \<open>C\<close>. \<open>AST_SIZES\<close> is the dictionary keyed by
  the three size letters; the keys are a datatype, so a lookup cannot miss.
\<close>

datatype size = SizeL | SizeM | SizeS

record ast_spec =
  spec_r :: real
  spec_score :: int
  spec_split :: "size list"

record ufo_spec =
  ufo_r :: real
  ufo_score :: int

record config =
  WIDTH :: real
  HEIGHT :: real
  START_LIVES :: int
  WAVE_DELAY :: real
  SAFE_SPAWN_TIME :: real
  UFO_SPAWN_EVERY :: real
  AST_VEL_MIN :: real
  AST_VEL_MAX :: real
  AST_SIZES :: "size \<Rightarrow> ast_spec"
  MAX_BULLETS :: nat
  BULLET_TTL :: real
  BULLET_RADIUS :: real
  SHIP_RADIUS :: real
  SHIP_TURN_SPEED :: real
  SHIP_THRUST :: real
  SHIP_FRICTION :: real
  SHIP_BULLET_SPEED :: real
  SHIP_FIRE_RATE :: real
  UFO_SPEED :: real
  UFO_SMALL :: ufo_spec
  UFO_BIG :: ufo_spec
  UFO_FIRE_RATE_SMALL :: real
  UFO_FIRE_RATE_BIG :: real
  UFO_BULLET_SPEED :: real

text \<open>
  A pygame \<open>Rect\<close> holds integer coordinates: \<open>(x, y, w, h)\<close>.
\<close>

type_synonym rect = "int \<times> int \<times> int \<times> int"

text \<open>
  The record \<open>env\<close> collects what the two source files call but do not define:
  \<^item> the helpers of \<open>utils.py\<close> (\<open>wrap_pos\<close>, \<open>angle_to_vec\<close>), taken as parameters;
  \<^item> the pygame library (\<open>Rect\<close>, assigning \<open>rect.center\<close>, \<open>collide_circle\<close>);
  \<^item> the sources of nondeterminism. Every call that draws a random value or asks the
    mixer for a channel is numbered by a counter (\<open>tick\<close> below), and the n-th call reads
    the oracle at n: \<open>random\<close> is the fraction in the unit interval behind
    \<open>uniform\<close>, \<open>rand_edge_pos\<close> and \<open>rand_unit_vec\<close> are the results of the helpers of
    \<open>utils.py\<close>, and \<open>find_channel\<close> is the channel handle that
    \<open>pg.mixer.find_channel()\<close> returns, or \<open>None\<close>.
\<close>

record env =
  wrap_pos :: "vec \<Rightarrow> vec"
  angle_to_vec :: "real \<Rightarrow> vec"
  Rect :: "real \<Rightarrow> real \<Rightarrow> real \<Rightarrow> real \<Rightarrow> rect"
  set_center :: "rect \<Rightarrow> vec \<Rightarrow> rect"
  collide_circle :: "rect \<Rightarrow> rect \<Rightarrow> bool"
  random :: "nat \<Rightarrow> real"
  rand_edge_pos :: "nat \<Rightarrow> vec"
  rand_unit_vec :: "nat \<Rightarrow> vec"
  find_channel :: "nat \<Rightarrow> nat option"

definition uniform :: "env \<Rightarrow> nat \<Rightarrow> real \<Rightarrow> real \<Rightarrow> real" where
  "uniform E t a b = a + (b - a) * random E t"

text \<open>
  State that lives outside the \<open>World\<close> object and therefore survives
  \<open>World.__init__\<close>: the number of oracle calls made so far, the next fresh object
  identity (Python objects are compared by identity, so every sprite carries one), and
  the log of what was asked of the mixer.
\<close>

datatype sound = SHOT | BREAK_LARGE | BREAK_MEDIUM | FLY_SMALL | FLY_BIG

datatype audio_event = Play sound | ChannelPlay nat sound | ChannelStop nat

record pg_state =
  tick :: nat
  next_id :: nat
  audio :: "audio_event list"

section \<open>Sprites\<close>

record bullet =
  b_id :: nat
  b_pos :: vec
  b_vel :: vec
  b_ttl :: real
  b_r :: real
  b_rect :: rect

record asteroid =
  a_id :: nat
  a_pos :: vec
  a_vel :: vec
  a_size :: size
  a_r :: real
  a_poly :: "vec list"
  a_rect :: rect

record ship =
  s_id :: nat
  s_pos :: vec
  s_vel :: vec
  s_angle :: real
  s_cool :: real
  s_invuln :: real
  s_alive :: bool
  s_r :: real
  s_rect :: rect

record ufo =
  u_id :: nat
  u_pos :: vec
  u_small :: bool
  u_r :: real
  u_speed :: real
  u_rect :: rect
  u_dir :: vec
  u_shoot_timer :: real
  u_shoot_delay :: real
  u_channel :: "nat option"

record keys =
  K_LEFT :: bool
  K_RIGHT :: bool
  K_UP :: bool

subsection \<open>Bullet\<close>

definition Bullet :: "config \<Rightarrow> env \<Rightarrow> nat \<Rightarrow> vec \<Rightarrow> vec \<Rightarrow> bullet" where
  "Bullet C E i pos vel =
     \<lparr>b_id = i, b_pos = pos, b_vel = vel, b_ttl = BULLET_TTL C, b_r = BULLET_RADIUS C,
      b_rect = Rect E 0 0 (BULLET_RADIUS C * 2) (BULLET_RADIUS C * 2)\<rparr>"

text \<open>
  \<open>Bullet.update\<close>: the second component says whether the bullet called \<open>kill()\<close> on
  itself; removing it from the groups is the caller's part.
\<close>

definition Bullet_update :: "env \<Rightarrow> real \<Rightarrow> bullet \<Rightarrow> bullet \<times> bool" where
  "Bullet_update E dt b =
     (let p = wrap_pos E (vadd (b_pos b) (smul (b_vel b) dt));
          ttl = b_ttl b - dt
      in (b\<lparr>b_pos := p, b_ttl := ttl, b_rect := set_center E (b_rect b) p\<rparr>, ttl \<le> 0))"

subsection \<open>Ship\<close>

definition Ship :: "config \<Rightarrow> env \<Rightarrow> nat \<Rightarrow> vec \<Rightarrow> ship" where
  "Ship C E i pos =
     \<lparr>s_id = i, s_pos = pos, s_vel = (0, 0), s_angle = - 90, s_cool = 0, s_invuln = 0,
      s_alive = True, s_r = SHIP_RADIUS C,
      s_rect = Rect E 0 0 (SHIP_RADIUS C * 2) (SHIP_RADIUS C * 2)\<rparr>"

definition Ship_control :: "config \<Rightarrow> env \<Rightarrow> keys \<Rightarrow> real \<Rightarrow> ship \<Rightarrow> ship" where
  "Ship_control C E ks dt s =
     (let s1 = (if K_LEFT ks then s\<lparr>s_angle := s_angle s - SHIP_TURN_SPEED C * dt\<rparr> else s);
          s2 = (if K_RIGHT ks then s1\<lparr>s_angle := s_angle s1 + SHIP_TURN_SPEED C * dt\<rparr> else s1);
          s3 = (if K_UP ks
                then s2\<lparr>s_vel := vadd (s_vel s2)
                        (smul (smul (angle_to_vec E (s_angle s2)) (SHIP_THRUST C)) dt)\<rparr>
                else s2)
      in s3\<lparr>s_vel := smul (s_vel s3) (SHIP_FRICTION C)\<rparr>)"

text \<open>
  \<open>Ship.fire\<close>: \<open>i\<close> is the identity the new bullet gets if one is made. The result is the
  returned value (\<open>None\<close> for Python's \<open>None\<close>) and the ship afterwards.
\<close>

definition Ship_fire :: "config \<Rightarrow> env \<Rightarrow> nat \<Rightarrow> ship \<Rightarrow> bullet option \<times> ship" where
  "Ship_fire C E i s =
     (if s_cool s > 0 then (None, s)
      else let direction = angle_to_vec E (s_angle s);
               pos = vadd (s_pos s) (smul direction (s_r s + 6));
               vel = vadd (s_vel s) (smul direction (SHIP_BULLET_SPEED C))
           in (Some (Bullet C E i pos vel), s\<lparr>s_cool := SHIP_FIRE_RATE C\<rparr>))"

text \<open>\<open>Ship.hyperspace\<close> draws two random numbers, at \<open>t\<close> and \<open>t + 1\<close>.\<close>

definition Ship_hyperspace :: "config \<Rightarrow> env \<Rightarrow> nat \<Rightarrow> ship \<Rightarrow> ship" where
  "Ship_hyperspace C E t s =
     s\<lparr>s_pos := (uniform E t 0 (WIDTH C), uniform E (t + 1) 0 (HEIGHT C)),
       s_vel := (0, 0), s_invuln := 1\<rparr>"

definition Ship_update :: "env \<Rightarrow> real \<Rightarrow> ship \<Rightarrow> ship" where
  "Ship_update E dt s =
     (let s1 = (if s_cool s > 0 then s\<lparr>s_cool := s_cool s - dt\<rparr> else s);
          s2 = (if s_invuln s1 > 0 then s1\<lparr>s_invuln := s_invuln s1 - dt\<rparr> else s1);
          p = wrap_pos E (vadd (s_pos s2) (smul (s_vel s2) dt))
      in s2\<lparr>s_pos := p, s_rect := set_center E (s_rect s2) p\<rparr>)"

subsection \<open>Asteroid\<close>

definition radians :: "real \<Rightarrow> real" where
  "radians a = a * pi / 180"

definition degrees :: "real \<Rightarrow> real" where
  "degrees a = a * 180 / pi"

definition poly_steps :: "size \<Rightarrow> nat" where
  "poly_steps sz = (if sz = SizeL then 12 else if sz = SizeM then 10 else 8)"

text \<open>\<open>Asteroid._make_poly\<close>: the i-th jitter is the random draw number \<open>t + i\<close>.\<close>

definition make_poly :: "env \<Rightarrow> nat \<Rightarrow> size \<Rightarrow> real \<Rightarrow> vec list" where
  "make_poly E t sz r =
     map (\<lambda>i. let ang = real i * (360 / real (poly_steps sz));
                   jitter = uniform E (t + i) 0.75 1.2;
                   radius = r * jitter
               in smul (cos (radians ang), sin (radians ang)) radius)
         [0..<poly_steps sz]"

text \<open>
  The constructors of the sprites that draw random numbers or need an identity take the
  outside state and return it updated.
\<close>

definition Asteroid :: "config \<Rightarrow> env \<Rightarrow> pg_state \<Rightarrow> vec \<Rightarrow> vec \<Rightarrow> size \<Rightarrow> asteroid \<times> pg_state" where
  "Asteroid C E x pos vel sz =
     (let r = spec_r (AST_SIZES C sz)
      in (\<lparr>a_id = next_id x, a_pos = pos, a_vel = vel, a_size = sz, a_r = r,
           a_poly = make_poly E (tick x) sz r, a_rect = Rect E 0 0 (r * 2) (r * 2)\<rparr>,
          x\<lparr>tick := tick x + poly_steps sz, next_id := next_id x + 1\<rparr>))"

definition Asteroid_update :: "env \<Rightarrow> real \<Rightarrow> asteroid \<Rightarrow> asteroid" where
  "Asteroid_update E dt a =
     (let p = wrap_pos E (vadd (a_pos a) (smul (a_vel a) dt))
      in a\<lparr>a_pos := p, a_rect := set_center E (a_rect a) p\<rparr>)"

subsection \<open>UFO\<close>

text \<open>
  \<open>UFO.__init__\<close>. The first \<open>normalize\<close> is guarded by the length test, so it is written
  out; the other two can raise, which makes the result \<open>None\<close>. A small UFO draws two
  random numbers for its direction and a big one draws one; then come the shoot timer
  and the request for a mixer channel.
\<close>

definition UFO :: "config \<Rightarrow> env \<Rightarrow> pg_state \<Rightarrow> vec \<Rightarrow> bool \<Rightarrow> vec option \<Rightarrow> (ufo \<times> pg_state) option" where
  "UFO C E x pos small target_pos =
     (let r = (if small then ufo_r (UFO_SMALL C) else ufo_r (UFO_BIG C));
          t = tick x;
          (dir, t1) =
            (case (if small then target_pos else None) of
               Some tp \<Rightarrow>
                 let d0 = vsub tp pos;
                     d1 = (if vlength d0 > 0 then smul d0 (1 / vlength d0) else (1, 0));
                     d2 = (fst d1 + uniform E t (- 0.2) 0.2, snd d1);
                     d3 = (fst d2, snd d2 + uniform E (t + 1) (- 0.2) 0.2)
                 in (normalize d3, t + 2)
             | None \<Rightarrow>
                 let direction_x = (if fst pos < WIDTH C / 2 then 1 else - 1);
                     direction_y = uniform E t (- 0.5) 0.5
                 in (normalize (direction_x, direction_y), t + 1))
      in case dir of
           None \<Rightarrow> None
         | Some d \<Rightarrow>
             let channel = find_channel E (t1 + 1);
                 engine_sound = (if small then FLY_SMALL else FLY_BIG)
             in Some
               (\<lparr>u_id = next_id x, u_pos = pos, u_small = small, u_r = r, u_speed = UFO_SPEED C,
                 u_rect = Rect E 0 0 (r * 2) (r * 2), u_dir = d,
                 u_shoot_timer = uniform E t1 0 1,
                 u_shoot_delay = (if small then UFO_FIRE_RATE_SMALL C else UFO_FIRE_RATE_BIG C),
                 u_channel = channel\<rparr>,
                x\<lparr>tick := t1 + 2, next_id := next_id x + 1,
                  audio := (case channel of
                              None \<Rightarrow> audio x
                            | Some c \<Rightarrow> audio x @ [ChannelPlay c engine_sound])\<rparr>))"

definition UFO_update :: "env \<Rightarrow> real \<Rightarrow> ufo \<Rightarrow> ufo" where
  "UFO_update E dt u =
     (let p = wrap_pos E (vadd (u_pos u) (smul (smul (u_dir u) (u_speed u)) dt));
          u1 = u\<lparr>u_pos := p, u_rect := set_center E (u_rect u) p\<rparr>
      in if u_shoot_timer u1 > 0 then u1\<lparr>u_shoot_timer := u_shoot_timer u1 - dt\<rparr> else u1)"

text \<open>\<open>math.atan2\<close> on reals (signed zeros are not modelled).\<close>

definition atan2 :: "real \<Rightarrow> real \<Rightarrow> real" where
  "atan2 y x =
     (if x > 0 then arctan (y / x)
      else if x < 0 then (if y \<ge> 0 then arctan (y / x) + pi else arctan (y / x) - pi)
      else if y > 0 then pi / 2
      else if y < 0 then - (pi / 2)
      else 0)"

text \<open>
  \<open>UFO.fire\<close> returns the bullet (or \<open>None\<close>), the UFO afterwards and the outside state.
  Both branches draw exactly one random number.
\<close>

definition UFO_fire :: "config \<Rightarrow> env \<Rightarrow> pg_state \<Rightarrow> vec option \<Rightarrow> ufo \<Rightarrow> bullet option \<times> ufo \<times> pg_state" where
  "UFO_fire C E x target_pos u =
     (if u_shoot_timer u > 0 then (None, u, x)
      else let u1 = u\<lparr>u_shoot_timer := u_shoot_delay u\<rparr>;
               angle = (case (if u_small u then target_pos else None) of
                          Some tp \<Rightarrow>
                            let diff = vsub tp (u_pos u)
                            in degrees (atan2 (snd diff) (fst diff)) + uniform E (tick x) (- 5) 5
                        | None \<Rightarrow> uniform E (tick x) 0 360);
               direction = angle_to_vec E angle;
               spawn_pos = vadd (u_pos u) (smul direction (u_r u + 10));
               vel = smul direction (UFO_BULLET_SPEED C)
           in (Some (Bullet C E (next_id x) spawn_pos vel), u1,
               x\<lparr>tick := tick x + 1, next_id := next_id x + 1\<rparr>))"

section \<open>World\<close>

text \<open>
  The sprite groups are lists in insertion order (a pygame \<open>Group\<close> iterates in that
  order). The typed groups hold the sprite objects; \<open>all_sprites\<close> names them by class
  and identity.
\<close>

datatype sprite_ref = ShipRef nat | BulletRef nat | AsteroidRef nat | UFORef nat

record world =
  ship :: ship
  bullets :: "bullet list"
  enemy_bullets :: "bullet list"
  asteroids :: "asteroid list"
  ufos :: "ufo list"
  all_sprites :: "sprite_ref list"
  score :: int
  lives :: int
  wave :: int
  wave_cool :: real
  safe :: real
  ufo_timer :: real
  pg :: pg_state

subsection \<open>Group membership and sound\<close>

text \<open>\<open>Sprite.kill()\<close> removes the sprite from every group that holds it.\<close>

definition kill_bullet :: "nat \<Rightarrow> world \<Rightarrow> world" where
  "kill_bullet i w =
     w\<lparr>bullets := filter (\<lambda>b. b_id b \<noteq> i) (bullets w),
       enemy_bullets := filter (\<lambda>b. b_id b \<noteq> i) (enemy_bullets w),
       all_sprites := filter (\<lambda>r. r \<noteq> BulletRef i) (all_sprites w)\<rparr>"

definition kill_asteroid :: "nat \<Rightarrow> world \<Rightarrow> world" where
  "kill_asteroid i w =
     w\<lparr>asteroids := filter (\<lambda>a. a_id a \<noteq> i) (asteroids w),
       all_sprites := filter (\<lambda>r. r \<noteq> AsteroidRef i) (all_sprites w)\<rparr>"

definition play :: "sound \<Rightarrow> world \<Rightarrow> world" where
  "play cue w = w\<lparr>pg := (pg w)\<lparr>audio := audio (pg w) @ [Play cue]\<rparr>\<rparr>"

definition channel_stop :: "nat option \<Rightarrow> world \<Rightarrow> world" where
  "channel_stop ch w =
     (case ch of
        None \<Rightarrow> w
      | Some c \<Rightarrow> w\<lparr>pg := (pg w)\<lparr>audio := audio (pg w) @ [ChannelStop c]\<rparr>\<rparr>)"

text \<open>\<open>UFO.kill\<close>: stop the engine sound if there is a channel, then \<open>Sprite.kill()\<close>.\<close>

definition UFO_kill :: "ufo \<Rightarrow> world \<Rightarrow> world" where
  "UFO_kill u w =
     (let w1 = channel_stop (u_channel u) w
      in w1\<lparr>ufos := filter (\<lambda>x. u_id x \<noteq> u_id u) (ufos w1),
            all_sprites := filter (\<lambda>r. r \<noteq> UFORef (u_id u)) (all_sprites w1)\<rparr>)"

subsection \<open>Spawning\<close>

definition spawn_asteroid :: "config \<Rightarrow> env \<Rightarrow> vec \<Rightarrow> vec \<Rightarrow> size \<Rightarrow> world \<Rightarrow> world" where
  "spawn_asteroid C E pos vel sz w =
     (let (asteroid, x) = Asteroid C E (pg w) pos vel sz
      in w\<lparr>asteroids := asteroids w @ [asteroid],
           all_sprites := all_sprites w @ [AsteroidRef (a_id asteroid)],
           pg := x\<rparr>)"

text \<open>
  The rejection loop of \<open>start_wave\<close>: draw edge positions until one is at least 150 away
  from the ship. It returns the position and the number of the next draw; it need not
  terminate, and then the value is \<open>None\<close>.
\<close>

partial_function (option) far_edge_pos :: "env \<Rightarrow> vec \<Rightarrow> nat \<Rightarrow> (vec \<times> nat) option" where
  "far_edge_pos E ship_pos t =
     (if vlength (vsub (rand_edge_pos E t) ship_pos) < 150
      then far_edge_pos E ship_pos (Suc t)
      else Some (rand_edge_pos E t, Suc t))"

definition tau :: real where
  "tau = 2 * pi"

fun wave_loop :: "config \<Rightarrow> env \<Rightarrow> nat \<Rightarrow> world \<Rightarrow> world option" where
  "wave_loop C E 0 w = Some w"
| "wave_loop C E (Suc n) w =
     (case far_edge_pos E (s_pos (ship w)) (tick (pg w)) of
        None \<Rightarrow> None
      | Some (pos, t) \<Rightarrow>
          let ang = uniform E t 0 tau;
              speed = uniform E (t + 1) (AST_VEL_MIN C) (AST_VEL_MAX C);
              vel = smul (cos ang, sin ang) speed
          in wave_loop C E n
               (spawn_asteroid C E pos vel SizeL (w\<lparr>pg := (pg w)\<lparr>tick := t + 2\<rparr>\<rparr>)))"

definition start_wave :: "config \<Rightarrow> env \<Rightarrow> world \<Rightarrow> world option" where
  "start_wave C E w =
     (let w1 = w\<lparr>wave := wave w + 1\<rparr>;
          count = 3 + wave w1
      in wave_loop C E (nat count) w1)"

definition spawn_ufo :: "config \<Rightarrow> env \<Rightarrow> world \<Rightarrow> world option" where
  "spawn_ufo C E w =
     (let t = tick (pg w);
          small = (uniform E t 0 1 < 0.5);
          y = uniform E (t + 1) 0 (HEIGHT C);
          x = (if uniform E (t + 2) 0 1 < 0.5 then 0 else WIDTH C);
          target_pos = (if s_alive (ship w) then s_pos (ship w) else (WIDTH C / 2, HEIGHT C / 2))
      in case UFO C E ((pg w)\<lparr>tick := t + 3\<rparr>) (x, y) small (Some target_pos) of
           None \<Rightarrow> None
         | Some (ufo, x') \<Rightarrow>
             Some (w\<lparr>ufos := ufos w @ [ufo],
                     all_sprites := all_sprites w @ [UFORef (u_id ufo)],
                     pg := x'\<rparr>))"

text \<open>\<open>World.__init__\<close>, given the outside state it starts from.\<close>

definition World :: "config \<Rightarrow> env \<Rightarrow> pg_state \<Rightarrow> world option" where
  "World C E x =
     start_wave C E
       \<lparr>ship = Ship C E (next_id x) (WIDTH C / 2, HEIGHT C / 2),
        bullets = [], enemy_bullets = [], asteroids = [], ufos = [],
        all_sprites = [ShipRef (next_id x)],
        score = 0, lives = START_LIVES C, wave = 0, wave_cool = WAVE_DELAY C,
        safe = SAFE_SPAWN_TIME C, ufo_timer = UFO_SPAWN_EVERY C,
        pg = x\<lparr>next_id := next_id x + 1\<rparr>\<rparr>"

subsection \<open>Player actions\<close>

definition try_fire :: "config \<Rightarrow> env \<Rightarrow> world \<Rightarrow> world" where
  "try_fire C E w =
     (if length (bullets w) \<ge> MAX_BULLETS C then w
      else case Ship_fire C E (next_id (pg w)) (ship w) of
             (None, _) \<Rightarrow> w
           | (Some bullet, s) \<Rightarrow>
               play SHOT
                 (w\<lparr>ship := s,
                    bullets := bullets w @ [bullet],
                    all_sprites := all_sprites w @ [BulletRef (b_id bullet)],
                    pg := (pg w)\<lparr>next_id := next_id (pg w) + 1\<rparr>\<rparr>))"

definition hyperspace :: "config \<Rightarrow> env \<Rightarrow> world \<Rightarrow> world" where
  "hyperspace C E w =
     (if \<not> s_alive (ship w) then w
      else let t = tick (pg w)
           in w\<lparr>ship := (ship w)\<lparr>s_pos := (uniform E t 0 (WIDTH C), uniform E (t + 1) 0 (HEIGHT C)),
                                   s_vel := (0, 0)\<rparr>,
                pg := (pg w)\<lparr>tick := t + 2\<rparr>\<rparr>)"

subsection \<open>Ship death\<close>

definition ship_die :: "config \<Rightarrow> env \<Rightarrow> world \<Rightarrow> world option" where
  "ship_die C E w =
     (if \<not> s_alive (ship w) then Some w
      else let w1 = play BREAK_LARGE w;
               w2 = w1\<lparr>lives := lives w1 - 1, ship := (ship w1)\<lparr>s_alive := False\<rparr>\<rparr>
           in if lives w2 \<ge> 0
              then Some (w2\<lparr>ship := (ship w2)\<lparr>s_pos := (WIDTH C / 2, HEIGHT C / 2),
                                              s_vel := (0, 0),
                                              s_angle := - 90,
                                              s_invuln := SAFE_SPAWN_TIME C,
                                              s_alive := True\<rparr>,
                            safe := SAFE_SPAWN_TIME C\<rparr>)
              else World C E (pg w2))"

subsection \<open>Splitting an asteroid\<close>

fun split_loop :: "config \<Rightarrow> env \<Rightarrow> vec \<Rightarrow> size list \<Rightarrow> world \<Rightarrow> world" where
  "split_loop C E pos [] w = w"
| "split_loop C E pos (sz # szs) w =
     (let t = tick (pg w);
          dirv = rand_unit_vec E t;
          speed = uniform E (t + 1) (AST_VEL_MIN C) (AST_VEL_MAX C) * 1.2
      in split_loop C E pos szs
           (spawn_asteroid C E pos (smul dirv speed) sz (w\<lparr>pg := (pg w)\<lparr>tick := t + 2\<rparr>\<rparr>)))"

definition split_asteroid :: "config \<Rightarrow> env \<Rightarrow> asteroid \<Rightarrow> world \<Rightarrow> world" where
  "split_asteroid C E asteroid w =
     (let w1 = play (if a_size asteroid = SizeL then BREAK_LARGE else BREAK_MEDIUM) w;
          w2 = w1\<lparr>score := score w1 + spec_score (AST_SIZES C (a_size asteroid))\<rparr>;
          split_sizes = spec_split (AST_SIZES C (a_size asteroid));
          pos = a_pos asteroid
      in split_loop C E pos split_sizes (kill_asteroid (a_id asteroid) w2))"

subsection \<open>Collisions\<close>

text \<open>
  \<open>handle_collisions\<close> is one function in the source; its four numbered parts are four
  definitions here, composed in \<open>handle_collisions\<close> below.

  Part 1 is \<open>pg.sprite.groupcollide(asteroids, bullets, False, True, collided)\<close>: for every
  asteroid in turn, every bullet still in the group that the test accepts is killed, and
  the asteroid is recorded as hit when there was at least one. Then every hit asteroid is
  split.
\<close>

definition collided_ab :: "asteroid \<Rightarrow> bullet \<Rightarrow> bool" where
  "collided_ab a b = (vlength (vsub (a_pos a) (b_pos b)) < a_r a)"

fun groupcollide_ab :: "asteroid list \<Rightarrow> world \<Rightarrow> asteroid list \<times> world" where
  "groupcollide_ab [] w = ([], w)"
| "groupcollide_ab (a # as) w =
     (let collision = filter (collided_ab a) (bullets w);
          w1 = fold kill_bullet (map b_id collision) w;
          (hits, w2) = groupcollide_ab as w1
      in (if collision \<noteq> [] then a # hits else hits, w2))"

definition bullets_vs_asteroids :: "config \<Rightarrow> env \<Rightarrow> world \<Rightarrow> world" where
  "bullets_vs_asteroids C E w =
     (let (hits, w1) = groupcollide_ab (asteroids w) w
      in fold (split_asteroid C E) hits w1)"

text \<open>
  Part 2. Each \<open>for\<close> loop calls \<open>ship_die\<close> at the first sprite in contact and breaks.
  The last test is \<open>pg.sprite.spritecollide(ship, enemy_bullets, True, collide_circle)\<close>,
  which works on the sprites' rects.
\<close>

definition ship_vs_asteroids :: "config \<Rightarrow> env \<Rightarrow> world \<Rightarrow> world option" where
  "ship_vs_asteroids C E w =
     (case find (\<lambda>a. vlength (vsub (a_pos a) (s_pos (ship w))) < a_r a + s_r (ship w))
                (asteroids w) of
        None \<Rightarrow> Some w
      | Some _ \<Rightarrow> ship_die C E w)"

definition ship_vs_ufos :: "config \<Rightarrow> env \<Rightarrow> world \<Rightarrow> world option" where
  "ship_vs_ufos C E w =
     (if s_alive (ship w)
      then case find (\<lambda>u. vlength (vsub (u_pos u) (s_pos (ship w))) < u_r u + s_r (ship w))
                     (ufos w) of
             None \<Rightarrow> Some w
           | Some _ \<Rightarrow> ship_die C E w
      else Some w)"

definition ship_vs_enemy_bullets :: "config \<Rightarrow> env \<Rightarrow> world \<Rightarrow> world option" where
  "ship_vs_enemy_bullets C E w =
     (if s_alive (ship w)
      then let hits = filter (\<lambda>b. collide_circle E (s_rect (ship w)) (b_rect b)) (enemy_bullets w);
               w1 = fold kill_bullet (map b_id hits) w
           in if hits \<noteq> [] then ship_die C E w1 else Some w1
      else Some w)"

definition ship_collisions :: "config \<Rightarrow> env \<Rightarrow> world \<Rightarrow> world option" where
  "ship_collisions C E w =
     (if s_invuln (ship w) \<le> 0 \<and> safe w \<le> 0
      then Option.bind (Option.bind (ship_vs_asteroids C E w) (ship_vs_ufos C E))
             (ship_vs_enemy_bullets C E)
      else Some w)"

text \<open>
  Part 3. The outer loop runs over a copy of the UFO group and the inner one over a copy
  of the bullet group made when the inner loop starts. There is no \<open>break\<close>: a UFO keeps
  being tested against the remaining bullets of the copy after it has been killed.
\<close>

definition ufo_vs_bullet :: "config \<Rightarrow> ufo \<Rightarrow> bullet \<Rightarrow> world \<Rightarrow> world" where
  "ufo_vs_bullet C ufo bullet w =
     (if vlength (vsub (u_pos ufo) (b_pos bullet)) < u_r ufo + b_r bullet
      then let sc = (if u_small ufo then ufo_score (UFO_SMALL C) else ufo_score (UFO_BIG C));
               w1 = w\<lparr>score := score w + sc\<rparr>
           in kill_bullet (b_id bullet) (UFO_kill ufo w1)
      else w)"

definition bullets_vs_ufos :: "config \<Rightarrow> world \<Rightarrow> world" where
  "bullets_vs_ufos C w =
     fold (\<lambda>ufo w1. fold (ufo_vs_bullet C ufo) (bullets w1) w1) (ufos w) w"

text \<open>
  Part 4 is \<open>pg.sprite.groupcollide(ufos, asteroids, True, False, collided)\<close>: a UFO that
  touches at least one asteroid is recorded with the asteroids it touches, and
  \<open>groupcollide\<close> calls its \<open>kill()\<close>. The loop over the result then stops the channel
  of each recorded UFO and splits the asteroids recorded for it.
\<close>

definition collided_ua :: "ufo \<Rightarrow> asteroid \<Rightarrow> bool" where
  "collided_ua u a = (vlength (vsub (u_pos u) (a_pos a)) < u_r u + a_r a)"

fun groupcollide_ua :: "ufo list \<Rightarrow> world \<Rightarrow> (ufo \<times> asteroid list) list \<times> world" where
  "groupcollide_ua [] w = ([], w)"
| "groupcollide_ua (u # us) w =
     (let collision = filter (collided_ua u) (asteroids w);
          w1 = (if collision \<noteq> [] then UFO_kill u w else w);
          (crashes, w2) = groupcollide_ua us w1
      in (if collision \<noteq> [] then (u, collision) # crashes else crashes, w2))"

definition crash :: "config \<Rightarrow> env \<Rightarrow> ufo \<times> asteroid list \<Rightarrow> world \<Rightarrow> world" where
  "crash C E c w =
     (case c of (ufo, asteroids_hit) \<Rightarrow>
        fold (split_asteroid C E) asteroids_hit (channel_stop (u_channel ufo) w))"

definition ufos_vs_asteroids :: "config \<Rightarrow> env \<Rightarrow> world \<Rightarrow> world" where
  "ufos_vs_asteroids C E w =
     (let (crashes, w1) = groupcollide_ua (ufos w) w
      in fold (crash C E) crashes w1)"

definition handle_collisions :: "config \<Rightarrow> env \<Rightarrow> world \<Rightarrow> world option" where
  "handle_collisions C E w =
     map_option (\<lambda>w2. ufos_vs_asteroids C E (bullets_vs_ufos C w2))
       (ship_collisions C E (bullets_vs_asteroids C E w))"

subsection \<open>The frame update\<close>

text \<open>
  \<open>all_sprites.update(dt)\<close> calls \<open>update\<close> on every sprite of a copy of the group. A
  bullet whose time is up kills itself.
\<close>

definition set_bullet :: "bullet \<Rightarrow> world \<Rightarrow> world" where
  "set_bullet b w =
     w\<lparr>bullets := map (\<lambda>x. if b_id x = b_id b then b else x) (bullets w),
       enemy_bullets := map (\<lambda>x. if b_id x = b_id b then b else x) (enemy_bullets w)\<rparr>"

fun sprite_update :: "env \<Rightarrow> real \<Rightarrow> sprite_ref \<Rightarrow> world \<Rightarrow> world" where
  "sprite_update E dt (ShipRef i) w =
     (if s_id (ship w) = i then w\<lparr>ship := Ship_update E dt (ship w)\<rparr> else w)"
| "sprite_update E dt (BulletRef i) w =
     (case find (\<lambda>b. b_id b = i) (bullets w @ enemy_bullets w) of
        None \<Rightarrow> w
      | Some b \<Rightarrow>
          let (b1, dead) = Bullet_update E dt b;
              w1 = set_bullet b1 w
          in if dead then kill_bullet i w1 else w1)"
| "sprite_update E dt (AsteroidRef i) w =
     w\<lparr>asteroids := map (\<lambda>a. if a_id a = i then Asteroid_update E dt a else a) (asteroids w)\<rparr>"
| "sprite_update E dt (UFORef i) w =
     w\<lparr>ufos := map (\<lambda>u. if u_id u = i then UFO_update E dt u else u) (ufos w)\<rparr>"

definition ufo_fire_step :: "config \<Rightarrow> env \<Rightarrow> vec option \<Rightarrow> ufo \<Rightarrow> world \<Rightarrow> world" where
  "ufo_fire_step C E player_pos ufo w =
     (case UFO_fire C E (pg w) player_pos ufo of
        (bullet, ufo1, x) \<Rightarrow>
          let w1 = w\<lparr>ufos := map (\<lambda>u. if u_id u = u_id ufo then ufo1 else u) (ufos w), pg := x\<rparr>
          in case bullet of
               None \<Rightarrow> w1
             | Some b \<Rightarrow> w1\<lparr>enemy_bullets := enemy_bullets w1 @ [b],
                            all_sprites := all_sprites w1 @ [BulletRef (b_id b)]\<rparr>)"

text \<open>Lines 98 to 117 of \<open>World.update\<close>: everything before the collisions.\<close>

definition update_entities :: "config \<Rightarrow> env \<Rightarrow> real \<Rightarrow> keys \<Rightarrow> world \<Rightarrow> world option" where
  "update_entities C E dt ks w =
     (let w1 = w\<lparr>ship := Ship_control C E ks dt (ship w)\<rparr>;
          w2 = fold (sprite_update E dt) (all_sprites w1) w1;
          player_pos = (if s_alive (ship w2) then Some (s_pos (ship w2)) else None);
          w3 = fold (ufo_fire_step C E player_pos) (ufos w2) w2;
          w4 = (if safe w3 > 0
                then w3\<lparr>safe := safe w3 - dt, ship := (ship w3)\<lparr>s_invuln := 0.5\<rparr>\<rparr>
                else w3\<lparr>ship := (ship w3)\<lparr>s_invuln := max (s_invuln (ship w3) - dt) 0\<rparr>\<rparr>);
          w5 = w4\<lparr>ufo_timer := ufo_timer w4 - dt\<rparr>
      in if ufo_timer w5 \<le> 0
         then map_option (\<lambda>w6. w6\<lparr>ufo_timer := UFO_SPAWN_EVERY C\<rparr>) (spawn_ufo C E w5)
         else Some w5)"

text \<open>Lines 121 to 125: the wave progression at the end of the frame.\<close>

definition wave_progress :: "config \<Rightarrow> env \<Rightarrow> real \<Rightarrow> world \<Rightarrow> world option" where
  "wave_progress C E dt w =
     (if asteroids w = [] \<and> wave_cool w \<le> 0
      then map_option (\<lambda>w1. w1\<lparr>wave_cool := WAVE_DELAY C\<rparr>) (start_wave C E w)
      else if asteroids w = [] then Some (w\<lparr>wave_cool := wave_cool w - dt\<rparr>)
      else Some w)"

definition update :: "config \<Rightarrow> env \<Rightarrow> real \<Rightarrow> keys \<Rightarrow> world \<Rightarrow> world option" where
  "update C E dt ks w =
     Option.bind (Option.bind (update_entities C E dt ks w) (handle_collisions C E))
       (wave_progress C E dt)"

section \<open>A sample configuration and environment\<close>

text \<open>
  The closed examples below need concrete parameters. The numbers of \<open>C0\<close> are sample
  values (the repository's \<open>config.py\<close> is not available); \<open>E0\<close> wraps positions modulo
  the arena, truncates rect coordinates with the floor, answers every random draw with
  one half, and hands out channel 7 whenever the mixer is asked.
\<close>

definition C0 :: config where
  "C0 = \<lparr>WIDTH = 960, HEIGHT = 720, START_LIVES = 3, WAVE_DELAY = 2, SAFE_SPAWN_TIME = 2,
          UFO_SPAWN_EVERY = 15, AST_VEL_MIN = 30, AST_VEL_MAX = 90,
          AST_SIZES = (\<lambda>sz. case sz of
                          SizeL \<Rightarrow> \<lparr>spec_r = 46, spec_score = 20, spec_split = [SizeM, SizeM]\<rparr>
                        | SizeM \<Rightarrow> \<lparr>spec_r = 24, spec_score = 50, spec_split = [SizeS, SizeS]\<rparr>
                        | SizeS \<Rightarrow> \<lparr>spec_r = 12, spec_score = 100, spec_split = []\<rparr>),
          MAX_BULLETS = 4, BULLET_TTL = 1, BULLET_RADIUS = 2, SHIP_RADIUS = 15,
          SHIP_TURN_SPEED = 220, SHIP_THRUST = 220, SHIP_FRICTION = 0.995,
          SHIP_BULLET_SPEED = 420, SHIP_FIRE_RATE = 0.2, UFO_SPEED = 80,
          UFO_SMALL = \<lparr>ufo_r = 12, ufo_score = 1000\<rparr>,
          UFO_BIG = \<lparr>ufo_r = 18, ufo_score = 200\<rparr>,
          UFO_FIRE_RATE_SMALL = 1, UFO_FIRE_RATE_BIG = 2, UFO_BULLET_SPEED = 260\<rparr>"

definition E0 :: env where
  "E0 = \<lparr>wrap_pos = (\<lambda>p. (fst p - 960 * of_int \<lfloor>fst p / 960\<rfloor>,
                         snd p - 720 * of_int \<lfloor>snd p / 720\<rfloor>)),
          angle_to_vec = (\<lambda>a. (cos (radians a), sin (radians a))),
          Rect = (\<lambda>x y w h. (\<lfloor>x\<rfloor>, \<lfloor>y\<rfloor>, \<lfloor>w\<rfloor>, \<lfloor>h\<rfloor>)),
          set_center = (\<lambda>r p. case r of (x, y, w, h) \<Rightarrow>
                          (\<lfloor>fst p\<rfloor> - w div 2, \<lfloor>snd p\<rfloor> - h div 2, w, h)),
          collide_circle = (\<lambda>r1 r2. case r1 of (x1, y1, w1, h1) \<Rightarrow> case r2 of (x2, y2, w2, h2) \<Rightarrow>
                          real_of_int (((x1 + w1 div 2) - (x2 + w2 div 2))\<^sup>2
                                       + ((y1 + h1 div 2) - (y2 + h2 div 2))\<^sup>2)
                          \<le> (sqrt (real_of_int (w1\<^sup>2 + h1\<^sup>2)) / 2
                              + sqrt (real_of_int (w2\<^sup>2 + h2\<^sup>2)) / 2)\<^sup>2),
          random = (\<lambda>_. 1 / 2),
          rand_edge_pos = (\<lambda>_. (0, 0)),
          rand_unit_vec = (\<lambda>_. (1, 0)),
          find_channel = (\<lambda>_. Some 7)\<rparr>"

definition W0 :: world where
  "W0 = \<lparr>ship = Ship C0 E0 0 (480, 360), bullets = [], enemy_bullets = [], asteroids = [],
          ufos = [], all_sprites = [ShipRef 0], score = 0, lives = 3, wave = 1,
          wave_cool = 2, safe = 0, ufo_timer = 15,
          pg = \<lparr>tick = 0, next_id = 1, audio = []\<rparr>\<rparr>"


definition K0 :: keys where
  "K0 = \<lparr>K_LEFT = False, K_RIGHT = False, K_UP = False\<rparr>"

definition A0 :: asteroid where
  "A0 = fst (Asteroid C0 E0 \<lparr>tick = 0, next_id = 1, audio = []\<rparr> (480, 360) (0, 0) SizeL)"

definition W1 :: world where
  "W1 = W0\<lparr>asteroids := [A0], all_sprites := [ShipRef 0, AsteroidRef 1],
            pg := \<lparr>tick = 12, next_id = 2, audio = []\<rparr>\<rparr>"

definition U0 :: ufo where
  "U0 = \<lparr>u_id = 2, u_pos = (480, 360), u_small = False, u_r = 18, u_speed = 80,
          u_rect = (0, 0, 36, 36), u_dir = (1, 0), u_shoot_timer = 1, u_shoot_delay = 2,
          u_channel = Some 7\<rparr>"

definition W2 :: world where
  "W2 = W1\<lparr>ufos := [U0], all_sprites := [ShipRef 0, AsteroidRef 1, UFORef 2],
            pg := \<lparr>tick = 15, next_id = 3, audio = [ChannelPlay 7 FLY_BIG]\<rparr>\<rparr>"

definition B0 :: bullet where
  "B0 = Bullet C0 E0 2 (490, 360) (0, 0)"

definition W3 :: world where
  "W3 = W1\<lparr>bullets := [B0], all_sprites := [ShipRef 0, AsteroidRef 1, BulletRef 2],
            safe := 2, pg := \<lparr>tick = 12, next_id = 3, audio = []\<rparr>\<rparr>"
section \<open>Predicates used in the statements\<close>

text \<open>
  \<open>edge_fair E p\<close>: from every draw on, some later edge position is at least 150 away
  from \<open>p\<close>; under it the rejection loop of \<open>start_wave\<close> terminates.
\<close>

definition edge_fair :: "env \<Rightarrow> vec \<Rightarrow> bool" where
  "edge_fair E p = (\<forall>t. \<exists>k. \<not> vlength (vsub (rand_edge_pos E (t + k)) p) < 150)"

fun is_ship_ref :: "sprite_ref \<Rightarrow> bool" where
  "is_ship_ref (ShipRef _) = True"
| "is_ship_ref _ = False"








section \<open>What the helper operations leave unchanged\<close>

lemma kill_bullet_fields [simp]:
  "score (kill_bullet i w) = score w"
  "lives (kill_bullet i w) = lives w"
  "wave (kill_bullet i w) = wave w"
  "ship (kill_bullet i w) = ship w"
  "asteroids (kill_bullet i w) = asteroids w"
  "ufos (kill_bullet i w) = ufos w"
  "pg (kill_bullet i w) = pg w"
  "safe (kill_bullet i w) = safe w"
  "wave_cool (kill_bullet i w) = wave_cool w"
  "ufo_timer (kill_bullet i w) = ufo_timer w"
  by (simp_all add: kill_bullet_def)

lemma fold_kill_bullet_fields [simp]:
  "score (fold kill_bullet is w) = score w"
  "lives (fold kill_bullet is w) = lives w"
  "wave (fold kill_bullet is w) = wave w"
  "ship (fold kill_bullet is w) = ship w"
  "asteroids (fold kill_bullet is w) = asteroids w"
  "ufos (fold kill_bullet is w) = ufos w"
  "pg (fold kill_bullet is w) = pg w"
  "safe (fold kill_bullet is w) = safe w"
  "wave_cool (fold kill_bullet is w) = wave_cool w"
  "ufo_timer (fold kill_bullet is w) = ufo_timer w"
  by (induction "is" arbitrary: w; simp)+

lemma fold_kill_bullet_bullets:
  "bullets (fold kill_bullet is w) = filter (\<lambda>b. b_id b \<notin> set is) (bullets w)"
  "enemy_bullets (fold kill_bullet is w) = filter (\<lambda>b. b_id b \<notin> set is) (enemy_bullets w)"
  by (induction "is" arbitrary: w; simp add: kill_bullet_def conj_commute)+

lemma kill_asteroid_fields [simp]:
  "score (kill_asteroid i w) = score w"
  "lives (kill_asteroid i w) = lives w"
  "wave (kill_asteroid i w) = wave w"
  "ship (kill_asteroid i w) = ship w"
  "bullets (kill_asteroid i w) = bullets w"
  "enemy_bullets (kill_asteroid i w) = enemy_bullets w"
  "ufos (kill_asteroid i w) = ufos w"
  "pg (kill_asteroid i w) = pg w"
  "safe (kill_asteroid i w) = safe w"
  "wave_cool (kill_asteroid i w) = wave_cool w"
  "ufo_timer (kill_asteroid i w) = ufo_timer w"
  by (simp_all add: kill_asteroid_def)

lemma play_fields [simp]:
  "score (play c w) = score w"
  "lives (play c w) = lives w"
  "wave (play c w) = wave w"
  "ship (play c w) = ship w"
  "bullets (play c w) = bullets w"
  "enemy_bullets (play c w) = enemy_bullets w"
  "asteroids (play c w) = asteroids w"
  "ufos (play c w) = ufos w"
  "all_sprites (play c w) = all_sprites w"
  "safe (play c w) = safe w"
  "wave_cool (play c w) = wave_cool w"
  "ufo_timer (play c w) = ufo_timer w"
  "tick (pg (play c w)) = tick (pg w)"
  "next_id (pg (play c w)) = next_id (pg w)"
  "audio (pg (play c w)) = audio (pg w) @ [Play c]"
  by (simp_all add: play_def)

lemma channel_stop_fields [simp]:
  "score (channel_stop ch w) = score w"
  "lives (channel_stop ch w) = lives w"
  "wave (channel_stop ch w) = wave w"
  "ship (channel_stop ch w) = ship w"
  "bullets (channel_stop ch w) = bullets w"
  "enemy_bullets (channel_stop ch w) = enemy_bullets w"
  "asteroids (channel_stop ch w) = asteroids w"
  "ufos (channel_stop ch w) = ufos w"
  "all_sprites (channel_stop ch w) = all_sprites w"
  "safe (channel_stop ch w) = safe w"
  "wave_cool (channel_stop ch w) = wave_cool w"
  "ufo_timer (channel_stop ch w) = ufo_timer w"
  "tick (pg (channel_stop ch w)) = tick (pg w)"
  "next_id (pg (channel_stop ch w)) = next_id (pg w)"
  by (simp_all add: channel_stop_def split: option.splits)

lemma UFO_kill_fields [simp]:
  "score (UFO_kill u w) = score w"
  "lives (UFO_kill u w) = lives w"
  "wave (UFO_kill u w) = wave w"
  "ship (UFO_kill u w) = ship w"
  "bullets (UFO_kill u w) = bullets w"
  "enemy_bullets (UFO_kill u w) = enemy_bullets w"
  "asteroids (UFO_kill u w) = asteroids w"
  "safe (UFO_kill u w) = safe w"
  "wave_cool (UFO_kill u w) = wave_cool w"
  "ufo_timer (UFO_kill u w) = ufo_timer w"
  "ufos (UFO_kill u w) = filter (\<lambda>x. u_id x \<noteq> u_id u) (ufos w)"
  by (simp_all add: UFO_kill_def Let_def)

lemma spawn_asteroid_fields [simp]:
  "score (spawn_asteroid C E p v sz w) = score w"
  "lives (spawn_asteroid C E p v sz w) = lives w"
  "wave (spawn_asteroid C E p v sz w) = wave w"
  "ship (spawn_asteroid C E p v sz w) = ship w"
  "bullets (spawn_asteroid C E p v sz w) = bullets w"
  "enemy_bullets (spawn_asteroid C E p v sz w) = enemy_bullets w"
  "ufos (spawn_asteroid C E p v sz w) = ufos w"
  "safe (spawn_asteroid C E p v sz w) = safe w"
  "wave_cool (spawn_asteroid C E p v sz w) = wave_cool w"
  "ufo_timer (spawn_asteroid C E p v sz w) = ufo_timer w"
  "audio (pg (spawn_asteroid C E p v sz w)) = audio (pg w)"
  "asteroids (spawn_asteroid C E p v sz w) = asteroids w @ [fst (Asteroid C E (pg w) p v sz)]"
  "all_sprites (spawn_asteroid C E p v sz w) = all_sprites w @ [AsteroidRef (next_id (pg w))]"
  by (simp_all add: spawn_asteroid_def Asteroid_def Let_def)


lemma far_edge_pos_after:
  "\<not> vlength (vsub (rand_edge_pos E (t + k)) p) < 150 \<Longrightarrow>
   \<exists>q t'. far_edge_pos E p t = Some (q, t')"
proof (induction k arbitrary: t)
  case 0
  then show ?case by (subst far_edge_pos.simps) simp
next
  case (Suc k)
  from Suc.prems have "\<not> vlength (vsub (rand_edge_pos E (Suc t + k)) p) < 150" by simp
  from Suc.IH [OF this] obtain q t' where "far_edge_pos E p (Suc t) = Some (q, t')" by blast
  then show ?case by (subst far_edge_pos.simps) simp
qed

lemma far_edge_pos_returns:
  "edge_fair E p \<Longrightarrow> \<exists>q t'. far_edge_pos E p t = Some (q, t')"
  unfolding edge_fair_def using far_edge_pos_after by blast

lemma wave_loop_returns:
  "edge_fair E (s_pos (ship w)) \<Longrightarrow> \<exists>w'. wave_loop C E n w = Some w'"
proof (induction n arbitrary: w)
  case 0
  then show ?case by simp
next
  case (Suc n)
  from far_edge_pos_returns [OF Suc.prems]
  obtain q t' where q: "far_edge_pos E (s_pos (ship w)) (tick (pg w)) = Some (q, t')" by blast
  show ?case
    using q Suc.IH Suc.prems by (simp add: Let_def)
qed

lemma wave_loop_fields:
  "wave_loop C E n w = Some w' \<Longrightarrow>
     score w' = score w \<and> lives w' = lives w \<and> wave w' = wave w \<and> ship w' = ship w
     \<and> bullets w' = bullets w \<and> enemy_bullets w' = enemy_bullets w \<and> ufos w' = ufos w
     \<and> safe w' = safe w \<and> wave_cool w' = wave_cool w \<and> ufo_timer w' = ufo_timer w
     \<and> audio (pg w') = audio (pg w)"
proof (induction n arbitrary: w)
  case 0
  then show ?case by simp
next
  case (Suc n)
  then show ?case
    by (auto simp: Let_def split: option.splits dest!: Suc.IH)
qed


lemma wave_loop_asteroids:
  "wave_loop C E n w = Some w' \<Longrightarrow>
     \<exists>new. asteroids w' = asteroids w @ new \<and> length new = n
         \<and> list_all (\<lambda>a. a_size a = SizeL) new
         \<and> all_sprites w' = all_sprites w @ map (\<lambda>a. AsteroidRef (a_id a)) new"
proof (induction n arbitrary: w)
  case 0
  then show ?case by simp
next
  case (Suc n)
  from Suc.prems obtain q t where
    q: "far_edge_pos E (s_pos (ship w)) (tick (pg w)) = Some (q, t)"
    by (auto split: option.splits)
  define w1 where "w1 = spawn_asteroid C E q
      (smul (cos (uniform E t 0 tau), sin (uniform E t 0 tau))
            (uniform E (t + 1) (AST_VEL_MIN C) (AST_VEL_MAX C)))
      SizeL (w\<lparr>pg := (pg w)\<lparr>tick := t + 2\<rparr>\<rparr>)"
  from Suc.prems q have "wave_loop C E n w1 = Some w'"
    by (simp add: Let_def w1_def)
  from Suc.IH [OF this] obtain new where new:
    "asteroids w' = asteroids w1 @ new" "length new = n"
    "list_all (\<lambda>a. a_size a = SizeL) new"
    "all_sprites w' = all_sprites w1 @ map (\<lambda>a. AsteroidRef (a_id a)) new"
    by blast
  define a where "a = fst (Asteroid C E ((pg w)\<lparr>tick := t + 2\<rparr>) q
      (smul (cos (uniform E t 0 tau), sin (uniform E t 0 tau))
            (uniform E (t + 1) (AST_VEL_MIN C) (AST_VEL_MAX C))) SizeL)"
  have a: "asteroids w1 = asteroids w @ [a]" "a_size a = SizeL"
    "all_sprites w1 = all_sprites w @ [AsteroidRef (a_id a)]"
    by (simp_all add: w1_def a_def Asteroid_def Let_def)
  show ?case
    by (rule exI [of _ "a # new"]) (simp add: new a)
qed

lemma start_wave_returns:
  "edge_fair E (s_pos (ship w)) \<Longrightarrow> \<exists>w'. start_wave C E w = Some w'"
  using wave_loop_returns [of E "w\<lparr>wave := wave w + 1\<rparr>" C]
  by (simp add: start_wave_def Let_def)

lemma start_wave_fields:
  "start_wave C E w = Some w' \<Longrightarrow>
     score w' = score w \<and> lives w' = lives w \<and> wave w' = wave w + 1 \<and> ship w' = ship w
     \<and> bullets w' = bullets w \<and> enemy_bullets w' = enemy_bullets w \<and> ufos w' = ufos w
     \<and> safe w' = safe w \<and> wave_cool w' = wave_cool w \<and> ufo_timer w' = ufo_timer w
     \<and> audio (pg w') = audio (pg w)"
  by (auto simp: start_wave_def Let_def dest!: wave_loop_fields)

lemma start_wave_asteroids:
  "start_wave C E w = Some w' \<Longrightarrow>
     \<exists>new. asteroids w' = asteroids w @ new \<and> length new = nat (3 + (wave w + 1))
         \<and> list_all (\<lambda>a. a_size a = SizeL) new
         \<and> all_sprites w' = all_sprites w @ map (\<lambda>a. AsteroidRef (a_id a)) new"
  by (auto simp: start_wave_def Let_def dest!: wave_loop_asteroids)

lemma World_returns:
  "edge_fair E (WIDTH C / 2, HEIGHT C / 2) \<Longrightarrow> \<exists>w'. World C E x = Some w'"
  unfolding World_def by (rule start_wave_returns) (simp add: Ship_def)

lemma World_fields:
  assumes "World C E x = Some w'"
  shows "score w' = 0" "lives w' = START_LIVES C" "wave w' = 1"
    "ship w' = Ship C E (next_id x) (WIDTH C / 2, HEIGHT C / 2)"
    "bullets w' = []" "enemy_bullets w' = []" "ufos w' = []"
    "safe w' = SAFE_SPAWN_TIME C" "wave_cool w' = WAVE_DELAY C"
    "ufo_timer w' = UFO_SPAWN_EVERY C" "audio (pg w') = audio x"
  using start_wave_fields [OF assms [unfolded World_def]] by simp_all

lemma World_asteroids:
  assumes "World C E x = Some w'"
  shows "length (asteroids w') = 4" "list_all (\<lambda>a. a_size a = SizeL) (asteroids w')"
    "filter is_ship_ref (all_sprites w') = [ShipRef (next_id x)]"
proof -
  from start_wave_asteroids [OF assms [unfolded World_def]]
  obtain new where new: "asteroids w' = new" "length new = 4"
    "list_all (\<lambda>a. a_size a = SizeL) new"
    "all_sprites w' = ShipRef (next_id x) # map (\<lambda>a. AsteroidRef (a_id a)) new"
    by auto
  show "length (asteroids w') = 4" "list_all (\<lambda>a. a_size a = SizeL) (asteroids w')"
    using new by simp_all
  have "filter is_ship_ref (map (\<lambda>a. AsteroidRef (a_id a)) ys) = []" for ys :: "asteroid list"
    by (induction ys) simp_all
  then show "filter is_ship_ref (all_sprites w') = [ShipRef (next_id x)]"
    using new by simp
qed


lemma vlength_less_iff:
  "0 \<le> d \<Longrightarrow> vlength v < d \<longleftrightarrow> (fst v)\<^sup>2 + (snd v)\<^sup>2 < d\<^sup>2"
  unfolding vlength_def
  by (metis real_sqrt_less_iff real_sqrt_abs abs_of_nonneg)

lemma edge_fair_E0: "edge_fair E0 (WIDTH C0 / 2, HEIGHT C0 / 2)"
  by (simp add: edge_fair_def E0_def C0_def vlength_less_iff vsub_def)


lemma sample_frame:
  "Option.bind (update_entities C0 E0 (1 / 60) K0 (W0\<lparr>wave_cool := c\<rparr>)) (handle_collisions C0 E0) =
     Some (W0\<lparr>wave_cool := c, ship := (ship W0)\<lparr>s_rect := (465, 345, 30, 30)\<rparr>,
              ufo_timer := 15 - 1 / 60\<rparr>)"
  apply (simp add: update_entities_def W0_def K0_def Ship_control_def Ship_def C0_def Let_def smul_def
      Ship_update_def vadd_def)
  apply (simp add: E0_def)
  apply (simp add: handle_collisions_def bullets_vs_asteroids_def ship_collisions_def
        ship_vs_asteroids_def ship_vs_ufos_def ship_vs_enemy_bullets_def
        bullets_vs_ufos_def ufos_vs_asteroids_def)
  done

section \<open>Score and reset through a frame\<close>

lemma split_loop_fields [simp]:
  "score (split_loop C E p szs w) = score w"
  "lives (split_loop C E p szs w) = lives w"
  "wave (split_loop C E p szs w) = wave w"
  "ship (split_loop C E p szs w) = ship w"
  "bullets (split_loop C E p szs w) = bullets w"
  "enemy_bullets (split_loop C E p szs w) = enemy_bullets w"
  "ufos (split_loop C E p szs w) = ufos w"
  "safe (split_loop C E p szs w) = safe w"
  "wave_cool (split_loop C E p szs w) = wave_cool w"
  "ufo_timer (split_loop C E p szs w) = ufo_timer w"
  "audio (pg (split_loop C E p szs w)) = audio (pg w)"
  by (induction szs arbitrary: w; simp add: Let_def)+

lemma split_asteroid_fields [simp]:
  "score (split_asteroid C E a w) = score w + spec_score (AST_SIZES C (a_size a))"
  "lives (split_asteroid C E a w) = lives w"
  "wave (split_asteroid C E a w) = wave w"
  "ship (split_asteroid C E a w) = ship w"
  "bullets (split_asteroid C E a w) = bullets w"
  "enemy_bullets (split_asteroid C E a w) = enemy_bullets w"
  "ufos (split_asteroid C E a w) = ufos w"
  "safe (split_asteroid C E a w) = safe w"
  "wave_cool (split_asteroid C E a w) = wave_cool w"
  "ufo_timer (split_asteroid C E a w) = ufo_timer w"
  by (simp_all add: split_asteroid_def Let_def)

lemma fold_split_asteroid_fields [simp]:
  "score (fold (split_asteroid C E) as w) =
     score w + sum_list (map (\<lambda>a. spec_score (AST_SIZES C (a_size a))) as)"
  "lives (fold (split_asteroid C E) as w) = lives w"
  "wave (fold (split_asteroid C E) as w) = wave w"
  "ship (fold (split_asteroid C E) as w) = ship w"
  "bullets (fold (split_asteroid C E) as w) = bullets w"
  "enemy_bullets (fold (split_asteroid C E) as w) = enemy_bullets w"
  "ufos (fold (split_asteroid C E) as w) = ufos w"
  "safe (fold (split_asteroid C E) as w) = safe w"
  "wave_cool (fold (split_asteroid C E) as w) = wave_cool w"
  "ufo_timer (fold (split_asteroid C E) as w) = ufo_timer w"
  by (induction as arbitrary: w; simp)+







lemma ship_vs_ufos_no_ufos: "ufos w = [] \<Longrightarrow> ship_vs_ufos C E w = Some w"
  by (simp add: ship_vs_ufos_def)

lemma ship_vs_enemy_bullets_none: "enemy_bullets w = [] \<Longrightarrow> ship_vs_enemy_bullets C E w = Some w"
  by (simp add: ship_vs_enemy_bullets_def)

lemma ufo_vs_bullet_fields [simp]:
  "lives (ufo_vs_bullet C u b w) = lives w"
  "wave (ufo_vs_bullet C u b w) = wave w"
  "asteroids (ufo_vs_bullet C u b w) = asteroids w"
  "ship (ufo_vs_bullet C u b w) = ship w"
  by (simp_all add: ufo_vs_bullet_def Let_def)


lemma fold_ufo_vs_bullet:
  "lives (fold (ufo_vs_bullet C u) bs w) = lives w"
  "wave (fold (ufo_vs_bullet C u) bs w) = wave w"
  "asteroids (fold (ufo_vs_bullet C u) bs w) = asteroids w"
  "ship (fold (ufo_vs_bullet C u) bs w) = ship w"
  by (induction bs arbitrary: w; simp)+


lemma ufo_loop_fields:
  "lives (fold (\<lambda>ufo w1. fold (ufo_vs_bullet C ufo) (bullets w1) w1) us w) = lives w"
  "wave (fold (\<lambda>ufo w1. fold (ufo_vs_bullet C ufo) (bullets w1) w1) us w) = wave w"
  "asteroids (fold (\<lambda>ufo w1. fold (ufo_vs_bullet C ufo) (bullets w1) w1) us w) = asteroids w"
  "ship (fold (\<lambda>ufo w1. fold (ufo_vs_bullet C ufo) (bullets w1) w1) us w) = ship w"
  by (induction us arbitrary: w; simp add: fold_ufo_vs_bullet)+


lemma bullets_vs_ufos_fields:
  "lives (bullets_vs_ufos C w) = lives w"
  "wave (bullets_vs_ufos C w) = wave w"
  "asteroids (bullets_vs_ufos C w) = asteroids w"
  "ship (bullets_vs_ufos C w) = ship w"
  by (simp_all add: bullets_vs_ufos_def ufo_loop_fields)


lemma bullets_vs_ufos_no_ufos: "ufos w = [] \<Longrightarrow> bullets_vs_ufos C w = w"
  by (simp add: bullets_vs_ufos_def)

lemma groupcollide_ua_fields:
  "groupcollide_ua us w = (crashes, w') \<Longrightarrow>
     score w' = score w \<and> lives w' = lives w \<and> wave w' = wave w \<and> ship w' = ship w
     \<and> asteroids w' = asteroids w"
proof (induction us arbitrary: w crashes)
  case Nil
  then show ?case by simp
next
  case (Cons u us)
  then show ?case
    by (auto simp: Let_def split: prod.splits if_splits dest!: Cons.IH)
qed

lemma crash_fields [simp]:
  "score (crash C E c w) = score w + sum_list (map (\<lambda>a. spec_score (AST_SIZES C (a_size a))) (snd c))"
  "lives (crash C E c w) = lives w"
  "wave (crash C E c w) = wave w"
  "ship (crash C E c w) = ship w"
  by (simp_all add: crash_def split: prod.splits)

lemma fold_crash_fields:
  "lives (fold (crash C E) cs w) = lives w"
  "wave (fold (crash C E) cs w) = wave w"
  "ship (fold (crash C E) cs w) = ship w"
  by (induction cs arbitrary: w; simp)+


lemma ufos_vs_asteroids_fields:
  "lives (ufos_vs_asteroids C E w) = lives w"
  "wave (ufos_vs_asteroids C E w) = wave w"
  "ship (ufos_vs_asteroids C E w) = ship w"
  by (auto simp: ufos_vs_asteroids_def fold_crash_fields split: prod.splits
      dest!: groupcollide_ua_fields)


lemma ufos_vs_asteroids_no_ufos: "ufos w = [] \<Longrightarrow> ufos_vs_asteroids C E w = w"
  by (simp add: ufos_vs_asteroids_def)


lemma sprite_update_score [simp]: "score (sprite_update E dt r w) = score w"
  by (cases r) (simp_all add: set_bullet_def Let_def split: option.splits prod.splits)

lemma fold_sprite_update_score [simp]: "score (fold (sprite_update E dt) rs w) = score w"
  by (induction rs arbitrary: w) simp_all

lemma ufo_fire_step_score [simp]: "score (ufo_fire_step C E pp u w) = score w"
  by (simp add: ufo_fire_step_def Let_def split: prod.splits option.splits)

lemma fold_ufo_fire_step_score [simp]: "score (fold (ufo_fire_step C E pp) us w) = score w"
  by (induction us arbitrary: w) simp_all






lemma groupcollide_ab_no_bullets: "bullets w = [] \<Longrightarrow> groupcollide_ab as w = ([], w)"
  by (induction as) simp_all

lemma bullets_vs_asteroids_no_bullets: "bullets w = [] \<Longrightarrow> bullets_vs_asteroids C E w = w"
  by (simp add: bullets_vs_asteroids_def groupcollide_ab_no_bullets)


lemma handle_collisions_reset:
  assumes "bullets w = []" and "s_invuln (ship w) \<le> 0" and "safe w \<le> 0"
    and "s_alive (ship w)" and "lives w - 1 < 0"
    and "find (\<lambda>a. vlength (vsub (a_pos a) (s_pos (ship w))) < a_r a + s_r (ship w))
           (asteroids w) = Some a"
    and "World C E ((pg w)\<lparr>audio := audio (pg w) @ [Play BREAK_LARGE]\<rparr>) = Some w'"
  shows "handle_collisions C E w = Some w'"
proof -
  have d: "ship_die C E w = Some w'"
    using assms(4,5,7) by (simp add: ship_die_def Let_def play_def)
  have f: "bullets w' = []" "enemy_bullets w' = []" "ufos w' = []"
    using World_fields [OF assms(7)] by simp_all
  have "ship_vs_asteroids C E w = Some w'"
    using assms(6) d by (simp add: ship_vs_asteroids_def)
  then have "ship_collisions C E w = Some w'"
    using assms(2,3) f by (simp add: ship_collisions_def ship_vs_ufos_no_ufos ship_vs_enemy_bullets_none)
  then show ?thesis
    using assms(1) f
    by (simp add: handle_collisions_def bullets_vs_asteroids_no_bullets bullets_vs_ufos_no_ufos
        ufos_vs_asteroids_no_ufos)
qed


lemma split_asteroid_audio:
  "audio (pg (split_asteroid C E a w)) =
     audio (pg w) @ [Play (if a_size a = SizeL then BREAK_LARGE else BREAK_MEDIUM)]"
  by (simp add: split_asteroid_def Let_def)

lemma sample_ship_collisions_W2:
  "map_option lives (ship_collisions C0 E0 W2) = Some 1"
  by (simp add: ship_collisions_def ship_vs_asteroids_def ship_vs_ufos_def
      ship_vs_enemy_bullets_def ship_die_def W2_def W1_def W0_def A0_def U0_def Asteroid_def
      Ship_def C0_def vsub_def vlength_def Let_def play_def)

lemma handle_collisions_lives:
  "map_option lives (handle_collisions C E w) =
     map_option lives (ship_collisions C E (bullets_vs_asteroids C E w))"
  by (simp add: handle_collisions_def option.map_comp comp_def ufos_vs_asteroids_fields
      bullets_vs_ufos_fields)

lemma sample_crash:
  "handle_collisions C0 E0 (W2\<lparr>safe := 2\<rparr>) = Some w' \<Longrightarrow>
     ufos w' = [] \<and> bullets w' = [] \<and> score w' = 20
     \<and> audio (pg w') = [ChannelPlay 7 FLY_BIG, ChannelStop 7, ChannelStop 7, Play BREAK_LARGE]"
  by (auto simp: handle_collisions_def bullets_vs_asteroids_def ship_collisions_def
      bullets_vs_ufos_def ufos_vs_asteroids_def crash_def collided_ua_def UFO_kill_def
      channel_stop_def split_asteroid_audio W2_def W1_def W0_def A0_def U0_def Asteroid_def
      C0_def vsub_def vlength_def Let_def)

lemma sample_crash_returns:
  "\<exists>w'. handle_collisions C0 E0 (W2\<lparr>safe := 2\<rparr>) = Some w'"
  by (simp add: handle_collisions_def ship_collisions_def bullets_vs_asteroids_no_bullets
      W2_def W1_def W0_def)

lemma sample_reset_W2:
  "\<exists>w'. handle_collisions C0 E0 (W2\<lparr>lives := 0\<rparr>) = Some w'
      \<and> World C0 E0 ((pg W2)\<lparr>audio := audio (pg W2) @ [Play BREAK_LARGE]\<rparr>) = Some w'"
proof -
  from World_returns [OF edge_fair_E0] obtain w' where
    W: "World C0 E0 ((pg W2)\<lparr>audio := audio (pg W2) @ [Play BREAK_LARGE]\<rparr>) = Some w'"
    by blast
  have "handle_collisions C0 E0 (W2\<lparr>lives := 0\<rparr>) = Some w'"
  proof (rule handle_collisions_reset [where a = A0])
    show "World C0 E0 ((pg (W2\<lparr>lives := 0\<rparr>))\<lparr>audio := audio (pg (W2\<lparr>lives := 0\<rparr>)) @ [Play BREAK_LARGE]\<rparr>) = Some w'"
      using W by simp
  qed (simp_all add: W2_def W1_def W0_def A0_def Asteroid_def Ship_def C0_def vsub_def vlength_def)
  with W show ?thesis by blast
qed

lemma kill_by_id_filter:
  "distinct (map b_id bs) \<Longrightarrow>
   filter (\<lambda>b. b_id b \<notin> set (map b_id (filter P bs))) bs = filter (\<lambda>b. \<not> P b) bs"
proof (rule filter_cong [OF refl])
  fix b
  assume d: "distinct (map b_id bs)" and b: "b \<in> set bs"
  have "b_id b \<in> b_id ` {x \<in> set bs. P x} \<longleftrightarrow> P b"
  proof
    assume "b_id b \<in> b_id ` {x \<in> set bs. P x}"
    then obtain x where x: "x \<in> set bs" "P x" "b_id x = b_id b" by auto
    from d have "inj_on b_id (set bs)" by (simp add: distinct_map)
    with x b have "x = b" by (auto dest: inj_onD)
    with x show "P b" by simp
  next
    assume "P b"
    with b show "b_id b \<in> b_id ` {x \<in> set bs. P x}" by auto
  qed
  then show "(b_id b \<notin> set (map b_id (filter P bs))) = (\<not> P b)" by simp
qed

lemma distinct_ids_filter: "distinct (map b_id bs) \<Longrightarrow> distinct (map b_id (filter P bs))"
  by (simp add: distinct_map_filter)

lemma groupcollide_ab_Cons:
  "fst (groupcollide_ab (a # as) w) =
     (if filter (collided_ab a) (bullets w) \<noteq> [] then [a] else [])
     @ fst (groupcollide_ab as (fold kill_bullet (map b_id (filter (collided_ab a) (bullets w))) w))"
  "snd (groupcollide_ab (a # as) w) =
     snd (groupcollide_ab as (fold kill_bullet (map b_id (filter (collided_ab a) (bullets w))) w))"
  by (simp_all add: Let_def case_prod_beta)

lemma groupcollide_ab_bullets:
  "distinct (map b_id (bullets w)) \<Longrightarrow>
   bullets (snd (groupcollide_ab as w)) =
     filter (\<lambda>b. \<not> (\<exists>a\<in>set as. collided_ab a b)) (bullets w)"
proof (induction as arbitrary: w)
  case Nil
  then show ?case by simp
next
  case (Cons a as)
  define w1 where "w1 = fold kill_bullet (map b_id (filter (collided_ab a) (bullets w))) w"
  have b1: "bullets w1 = filter (\<lambda>b. \<not> collided_ab a b) (bullets w)"
    unfolding w1_def fold_kill_bullet_bullets using Cons.prems by (rule kill_by_id_filter)
  then have "distinct (map b_id (bullets w1))"
    using Cons.prems by (simp add: distinct_ids_filter)
  from Cons.IH [OF this] b1
  have "bullets (snd (groupcollide_ab as w1)) =
          filter (\<lambda>b. \<not> (\<exists>a\<in>set as. collided_ab a b)) (filter (\<lambda>b. \<not> collided_ab a b) (bullets w))"
    by simp
  also have "\<dots> = filter (\<lambda>b. \<not> (\<exists>a\<in>set (a # as). collided_ab a b)) (bullets w)"
    by (auto intro: filter_cong)
  finally show ?case
    unfolding groupcollide_ab_Cons w1_def .
qed

lemma groupcollide_ab_hits:
  "x \<in> set (fst (groupcollide_ab as w)) \<Longrightarrow>
   x \<in> set as \<and> (\<exists>b\<in>set (bullets w). collided_ab x b)"
proof (induction as arbitrary: w)
  case Nil
  then show ?case by simp
next
  case (Cons a as)
  define w1 where "w1 = fold kill_bullet (map b_id (filter (collided_ab a) (bullets w))) w"
  have sub: "set (bullets w1) \<subseteq> set (bullets w)"
    by (auto simp: w1_def fold_kill_bullet_bullets)
  from Cons.prems have
    "(filter (collided_ab a) (bullets w) \<noteq> [] \<and> x = a) \<or> x \<in> set (fst (groupcollide_ab as w1))"
    unfolding groupcollide_ab_Cons w1_def by (auto split: if_splits)
  then show ?case
  proof
    assume h: "filter (collided_ab a) (bullets w) \<noteq> [] \<and> x = a"
    then obtain b where "b \<in> set (filter (collided_ab a) (bullets w))"
      by (cases "filter (collided_ab a) (bullets w)") auto
    with h show ?thesis by auto
  next
    assume "x \<in> set (fst (groupcollide_ab as w1))"
    from Cons.IH [OF this] sub show ?thesis by auto
  qed
qed

lemma groupcollide_ab_first:
  "distinct (map b_id (bullets w)) \<Longrightarrow> b \<in> set (bullets w) \<Longrightarrow>
   find (\<lambda>a. collided_ab a b) as = Some x \<Longrightarrow> x \<in> set (fst (groupcollide_ab as w))"
proof (induction as arbitrary: w)
  case Nil
  then show ?case by simp
next
  case (Cons a as)
  define w1 where "w1 = fold kill_bullet (map b_id (filter (collided_ab a) (bullets w))) w"
  have b1: "bullets w1 = filter (\<lambda>b. \<not> collided_ab a b) (bullets w)"
    unfolding w1_def fold_kill_bullet_bullets using Cons.prems(1) by (rule kill_by_id_filter)
  show ?case
  proof (cases "collided_ab a b")
    case True
    with Cons.prems have "x = a" "filter (collided_ab a) (bullets w) \<noteq> []"
      by (auto simp: filter_empty_conv)
    then show ?thesis unfolding groupcollide_ab_Cons by simp
  next
    case False
    with Cons.prems b1 have "distinct (map b_id (bullets w1))" "b \<in> set (bullets w1)"
      "find (\<lambda>a. collided_ab a b) as = Some x"
      by (simp_all add: distinct_ids_filter)
    from Cons.IH [OF this] show ?thesis
      unfolding groupcollide_ab_Cons w1_def by simp
  qed
qed

lemma split_loop_asteroids:
  "\<exists>cs. asteroids (split_loop C E p szs w) = asteroids w @ cs \<and> map a_size cs = szs
       \<and> map a_pos cs = map (\<lambda>_. p) szs"
proof (induction szs arbitrary: w)
  case Nil
  then show ?case by simp
next
  case (Cons sz szs)
  define w1 where "w1 = spawn_asteroid C E p
      (smul (rand_unit_vec E (tick (pg w)))
         (uniform E (tick (pg w) + 1) (AST_VEL_MIN C) (AST_VEL_MAX C) * 1.2))
      sz (w\<lparr>pg := (pg w)\<lparr>tick := tick (pg w) + 2\<rparr>\<rparr>)"
  from Cons.IH [of w1] obtain cs where cs:
    "asteroids (split_loop C E p szs w1) = asteroids w1 @ cs" "map a_size cs = szs"
    "map a_pos cs = map (\<lambda>_. p) szs"
    by blast
  obtain c where c: "asteroids w1 = asteroids w @ [c]" "a_size c = sz" "a_pos c = p"
    by (simp add: w1_def Asteroid_def Let_def)
  have "split_loop C E p (sz # szs) w = split_loop C E p szs w1"
    by (simp add: Let_def w1_def)
  with cs c show ?case
    by (intro exI [of _ "c # cs"]) simp
qed

lemma split_asteroid_asteroids:
  "\<exists>cs. asteroids (split_asteroid C E a w) = filter (\<lambda>x. a_id x \<noteq> a_id a) (asteroids w) @ cs
       \<and> map a_size cs = spec_split (AST_SIZES C (a_size a))
       \<and> map a_pos cs = map (\<lambda>_. a_pos a) (spec_split (AST_SIZES C (a_size a)))"
  using split_loop_asteroids [of C E "a_pos a" "spec_split (AST_SIZES C (a_size a))"
      "kill_asteroid (a_id a)
         ((play (if a_size a = SizeL then BREAK_LARGE else BREAK_MEDIUM) w)
            \<lparr>score := score w + spec_score (AST_SIZES C (a_size a))\<rparr>)"]
  by (simp add: split_asteroid_def Let_def kill_asteroid_def)
section \<open>Which frames reset the world\<close>











section \<open>Ship timers and firing\<close>

text \<open>
  C8. \<open>Ship.fire()\<close> returns a bullet exactly when the cooldown has elapsed (is at most
  zero). The bullet then starts at the ship's position plus the facing direction times
  (radius + 6), its velocity is the ship's velocity plus the facing direction times the
  bullet speed, and the ship's cooldown becomes the fire-rate interval. While the cooldown
  is positive nothing is returned and the ship is unchanged.
\<close>

theorem Ship_fire_cooldown:
  "Ship_fire C E i s =
     (if s_cool s \<le> 0
      then (Some \<lparr>b_id = i,
                  b_pos = vadd (s_pos s) (smul (angle_to_vec E (s_angle s)) (s_r s + 6)),
                  b_vel = vadd (s_vel s) (smul (angle_to_vec E (s_angle s)) (SHIP_BULLET_SPEED C)),
                  b_ttl = BULLET_TTL C, b_r = BULLET_RADIUS C,
                  b_rect = Rect E 0 0 (BULLET_RADIUS C * 2) (BULLET_RADIUS C * 2)\<rparr>,
            s\<lparr>s_cool := SHIP_FIRE_RATE C\<rparr>)
      else (None, s))"
  by (simp add: Ship_fire_def Bullet_def Let_def not_less)

text \<open>
  C6, as the spec states it: after \<open>Ship.update(dt)\<close> neither timer is negative. This fails:
  a ship whose two timers stand at 1 and that is updated with \<open>dt = 2\<close> ends with both
  timers at \<open>-1\<close>.
\<close>

theorem Ship_update_clamp_counterexample:
  "s_cool (Ship_update E0 2 ((Ship C0 E0 0 (480, 360))\<lparr>s_cool := 1, s_invuln := 1\<rparr>)) = - 1
   \<and> s_invuln (Ship_update E0 2 ((Ship C0 E0 0 (480, 360))\<lparr>s_cool := 1, s_invuln := 1\<rparr>)) = - 1"
  by (simp add: Ship_update_def Ship_def Let_def)

text \<open>
  C6, amended: \<open>Ship.update(dt)\<close> subtracts \<open>dt\<close> from the fire cooldown and from the
  invulnerability timer when that timer is positive, and leaves a timer that is zero or
  negative as it is. There is no clamp.
\<close>

theorem Ship_update_timers:
  "s_cool (Ship_update E dt s) = (if s_cool s > 0 then s_cool s - dt else s_cool s)
   \<and> s_invuln (Ship_update E dt s) = (if s_invuln s > 0 then s_invuln s - dt else s_invuln s)"
  by (simp add: Ship_update_def Let_def)

section \<open>Ship death: respawn or reset\<close>

text \<open>
  C4. A death of the living ship that leaves \<open>lives\<close> negative is a full reset: the result
  is the world that \<open>World.__init__\<close> builds (from the outside state after the destruction
  cue), so score, lives and wave are back at their initial values 0, \<open>START_LIVES\<close> and 1,
  the bullet and UFO groups are empty, the first wave of four asteroids is there, and
  \<open>all_sprites\<close> holds exactly one ship, the new one. The reset returns whenever the edge
  positions drawn keep offering one that is at least 150 away from the arena centre. A
  death that leaves \<open>lives\<close> at zero or more puts the ship back at the arena centre with
  zero velocity, angle -90 and the safe-spawn invulnerability, and changes nothing else
  but the life count and the sound log.
\<close>

theorem ship_die_reset_or_respawn:
  assumes "s_alive (ship w)"
  shows "(lives w - 1 < 0 \<and> edge_fair E (WIDTH C / 2, HEIGHT C / 2) \<longrightarrow>
            (\<exists>w'. ship_die C E w = Some w'
                \<and> World C E ((pg w)\<lparr>audio := audio (pg w) @ [Play BREAK_LARGE]\<rparr>) = Some w'
                \<and> score w' = 0 \<and> lives w' = START_LIVES C \<and> wave w' = 1
                \<and> bullets w' = [] \<and> enemy_bullets w' = [] \<and> ufos w' = []
                \<and> length (asteroids w') = 4
                \<and> ship w' = Ship C E (next_id (pg w)) (WIDTH C / 2, HEIGHT C / 2)
                \<and> filter is_ship_ref (all_sprites w') = [ShipRef (next_id (pg w))]))
       \<and> (lives w - 1 \<ge> 0 \<longrightarrow>
            ship_die C E w =
              Some (w\<lparr>lives := lives w - 1,
                      ship := (ship w)\<lparr>s_pos := (WIDTH C / 2, HEIGHT C / 2), s_vel := (0, 0),
                                       s_angle := - 90, s_invuln := SAFE_SPAWN_TIME C,
                                       s_alive := True\<rparr>,
                      safe := SAFE_SPAWN_TIME C,
                      pg := (pg w)\<lparr>audio := audio (pg w) @ [Play BREAK_LARGE]\<rparr>\<rparr>))"
proof (intro conjI impI)
  assume h: "lives w - 1 < 0 \<and> edge_fair E (WIDTH C / 2, HEIGHT C / 2)"
  define x where "x = (pg w)\<lparr>audio := audio (pg w) @ [Play BREAK_LARGE]\<rparr>"
  from h World_returns obtain w' where w': "World C E x = Some w'" by blast
  have die: "ship_die C E w = World C E x"
    using assms h by (simp add: ship_die_def Let_def play_def x_def)
  have nx: "next_id x = next_id (pg w)" by (simp add: x_def)
  show "\<exists>w'. ship_die C E w = Some w'
          \<and> World C E ((pg w)\<lparr>audio := audio (pg w) @ [Play BREAK_LARGE]\<rparr>) = Some w'
          \<and> score w' = 0 \<and> lives w' = START_LIVES C \<and> wave w' = 1
          \<and> bullets w' = [] \<and> enemy_bullets w' = [] \<and> ufos w' = []
          \<and> length (asteroids w') = 4
          \<and> ship w' = Ship C E (next_id (pg w)) (WIDTH C / 2, HEIGHT C / 2)
          \<and> filter is_ship_ref (all_sprites w') = [ShipRef (next_id (pg w))]"
    using die w' World_fields [OF w'] World_asteroids [OF w'] nx
    unfolding x_def [symmetric] by (intro exI [of _ w']) simp
next
  assume "lives w - 1 \<ge> 0"
  then show "ship_die C E w =
      Some (w\<lparr>lives := lives w - 1,
              ship := (ship w)\<lparr>s_pos := (WIDTH C / 2, HEIGHT C / 2), s_vel := (0, 0),
                               s_angle := - 90, s_invuln := SAFE_SPAWN_TIME C,
                               s_alive := True\<rparr>,
              safe := SAFE_SPAWN_TIME C,
              pg := (pg w)\<lparr>audio := audio (pg w) @ [Play BREAK_LARGE]\<rparr>\<rparr>)"
    using assms by (simp add: ship_die_def Let_def play_def)
qed

theorem ship_die_reset_or_respawn_witness:
  "s_alive (ship W0)
   \<and> (\<exists>w'. ship_die C0 E0 (W0\<lparr>lives := 0\<rparr>) = Some w'
          \<and> score w' = 0 \<and> lives w' = 3 \<and> wave w' = 1
          \<and> bullets w' = [] \<and> enemy_bullets w' = [] \<and> ufos w' = []
          \<and> length (asteroids w') = 4
          \<and> filter is_ship_ref (all_sprites w') = [ShipRef 1])
   \<and> map_option lives (ship_die C0 E0 W0) = Some 2
   \<and> map_option (\<lambda>w. s_pos (ship w)) (ship_die C0 E0 W0) = Some (480, 360)
   \<and> map_option (\<lambda>w. s_invuln (ship w)) (ship_die C0 E0 W0) = Some 2"
proof -
  have a: "s_alive (ship W0)" "s_alive (ship (W0\<lparr>lives := 0\<rparr>))"
    by (simp_all add: W0_def Ship_def)
  have l: "lives (W0\<lparr>lives := 0\<rparr>) - 1 < 0" "lives W0 - 1 \<ge> 0"
    by (simp_all add: W0_def)
  from ship_die_reset_or_respawn [OF a(2), of E0 C0] l(1) edge_fair_E0
  obtain w' where "ship_die C0 E0 (W0\<lparr>lives := 0\<rparr>) = Some w'"
    "score w' = 0" "lives w' = START_LIVES C0" "wave w' = 1"
    "bullets w' = []" "enemy_bullets w' = []" "ufos w' = []" "length (asteroids w') = 4"
    "filter is_ship_ref (all_sprites w') = [ShipRef (next_id (pg (W0\<lparr>lives := 0\<rparr>)))]"
    by blast
  moreover have "START_LIVES C0 = 3" "next_id (pg (W0\<lparr>lives := 0\<rparr>)) = 1"
    by (simp_all add: C0_def W0_def)
  moreover from ship_die_reset_or_respawn [OF a(1), of E0 C0] l(2)
  have "map_option lives (ship_die C0 E0 W0) = Some 2"
    "map_option (\<lambda>w. s_pos (ship w)) (ship_die C0 E0 W0) = Some (480, 360)"
    "map_option (\<lambda>w. s_invuln (ship w)) (ship_die C0 E0 W0) = Some 2"
    by (simp_all add: W0_def C0_def)
  ultimately show ?thesis using a(1) by auto
qed


section \<open>Wave progression\<close>

text \<open>
  C7. Let \<open>w1\<close> be the world that the frame has reached after the collisions. If no
  asteroids remain and the wave-delay timer is still positive, \<open>World.update\<close> only
  subtracts \<open>dt\<close> from the timer. If no asteroids remain and the timer has elapsed, a new
  wave starts: the wave number goes up by one, the asteroid group holds exactly 3 + (the
  new wave number) asteroids, all large, and the timer is set back to \<open>WAVE_DELAY\<close>. The
  frame returns whenever the edge positions drawn keep offering one far enough from the
  ship.
\<close>

theorem update_wave_progression:
  assumes "Option.bind (update_entities C E dt ks w) (handle_collisions C E) = Some w1"
    and "asteroids w1 = []" and "0 \<le> wave w1"
  shows "(wave_cool w1 > 0 \<longrightarrow> update C E dt ks w = Some (w1\<lparr>wave_cool := wave_cool w1 - dt\<rparr>))
       \<and> (wave_cool w1 \<le> 0 \<and> edge_fair E (s_pos (ship w1)) \<longrightarrow>
            (\<exists>w'. update C E dt ks w = Some w'
                \<and> wave w' = wave w1 + 1
                \<and> int (length (asteroids w')) = 3 + wave w'
                \<and> list_all (\<lambda>a. a_size a = SizeL) (asteroids w')
                \<and> wave_cool w' = WAVE_DELAY C))"
proof (intro conjI impI)
  assume "wave_cool w1 > 0"
  then show "update C E dt ks w = Some (w1\<lparr>wave_cool := wave_cool w1 - dt\<rparr>)"
    using assms by (simp add: update_def wave_progress_def)
next
  assume h: "wave_cool w1 \<le> 0 \<and> edge_fair E (s_pos (ship w1))"
  then obtain w2 where w2: "start_wave C E w1 = Some w2"
    using start_wave_returns by blast
  from start_wave_asteroids [OF w2] assms(2)
  have len: "length (asteroids w2) = nat (3 + (wave w1 + 1))"
    and sz: "list_all (\<lambda>a. a_size a = SizeL) (asteroids w2)"
    by auto
  have wv: "wave w2 = wave w1 + 1"
    using start_wave_fields [OF w2] by simp
  have upd: "update C E dt ks w = Some (w2\<lparr>wave_cool := WAVE_DELAY C\<rparr>)"
    using assms h w2 by (simp add: update_def wave_progress_def)
  show "\<exists>w'. update C E dt ks w = Some w'
          \<and> wave w' = wave w1 + 1
          \<and> int (length (asteroids w')) = 3 + wave w'
          \<and> list_all (\<lambda>a. a_size a = SizeL) (asteroids w')
          \<and> wave_cool w' = WAVE_DELAY C"
    using upd len sz wv assms(3) by (intro exI [of _ "w2\<lparr>wave_cool := WAVE_DELAY C\<rparr>"]) simp
qed

theorem update_wave_progression_witness:
  "map_option wave_cool (update C0 E0 (1 / 60) K0 (W0\<lparr>wave_cool := 2\<rparr>)) = Some (2 - 1 / 60)
   \<and> map_option wave (update C0 E0 (1 / 60) K0 (W0\<lparr>wave_cool := 2\<rparr>)) = Some 1
   \<and> (\<exists>w'. update C0 E0 (1 / 60) K0 (W0\<lparr>wave_cool := 0\<rparr>) = Some w'
          \<and> wave w' = 2 \<and> length (asteroids w') = 5
          \<and> list_all (\<lambda>a. a_size a = SizeL) (asteroids w') \<and> wave_cool w' = 2)"
proof -
  let ?w1 = "\<lambda>c. W0\<lparr>wave_cool := c, ship := (ship W0)\<lparr>s_rect := (465, 345, 30, 30)\<rparr>,
                     ufo_timer := 15 - 1 / 60\<rparr>"
  have e: "asteroids (?w1 c) = []" "0 \<le> wave (?w1 c)" "wave (?w1 c) = 1"
    "wave_cool (?w1 c) = c" "s_pos (ship (?w1 c)) = (WIDTH C0 / 2, HEIGHT C0 / 2)" for c
    by (simp_all add: W0_def Ship_def C0_def)
  have "map_option wave_cool (update C0 E0 (1 / 60) K0 (W0\<lparr>wave_cool := 2\<rparr>)) = Some (2 - 1 / 60)"
    "map_option wave (update C0 E0 (1 / 60) K0 (W0\<lparr>wave_cool := 2\<rparr>)) = Some 1"
    using update_wave_progression [OF sample_frame [of 2] e(1) e(2)] e(3) [of 2] e(4) [of 2]
    by simp_all
  moreover have "\<exists>w'. update C0 E0 (1 / 60) K0 (W0\<lparr>wave_cool := 0\<rparr>) = Some w'
          \<and> wave w' = 2 \<and> length (asteroids w') = 5
          \<and> list_all (\<lambda>a. a_size a = SizeL) (asteroids w') \<and> wave_cool w' = 2"
    using update_wave_progression [OF sample_frame [of 0] e(1) e(2)] e(3) [of 0] e(4) [of 0]
      e(5) [of 0] edge_fair_E0
    by (auto simp: C0_def)
  ultimately show ?thesis by blast
qed

section \<open>Score across frames\<close>




section \<open>Ship deaths within one frame\<close>

text \<open>
  C2 says that the first contact found stops all further death checks of the frame, so
  that \<open>lives\<close> drops by at most one. The code evaluated where that fails: the
  unprotected ship sits at the arena centre under an asteroid and a UFO, with three lives.
  \<open>ship_die\<close> respawns the ship at once and sets \<open>alive\<close> to true again, so the guard
  before the UFO check lets it run, the ship dies a second time, and one pass of
  \<open>handle_collisions\<close> leaves one life.
\<close>

theorem handle_collisions_two_deaths:
  "lives W2 = 3 \<and> s_invuln (ship W2) = 0 \<and> safe W2 = 0
   \<and> map_option lives (handle_collisions C0 E0 W2) = Some 1"
proof -
  have "bullets W2 = []" by (simp add: W2_def W1_def W0_def)
  then have "bullets_vs_asteroids C0 E0 W2 = W2" by (rule bullets_vs_asteroids_no_bullets)
  then have "map_option lives (handle_collisions C0 E0 W2) = Some 1"
    by (simp add: handle_collisions_lives sample_ship_collisions_W2)
  moreover have "lives W2 = 3" "s_invuln (ship W2) = 0" "safe W2 = 0"
    by (simp_all add: W2_def W1_def W0_def Ship_def)
  ultimately show ?thesis by simp
qed

section \<open>Hyperspace\<close>

text \<open>
  C5 says that the world's hyperspace operation grants a brief invulnerability. The code
  evaluated where that fails: for the living ship of the sample world, whose
  invulnerability timer is 0, \<open>World.hyperspace\<close> leaves the timer at 0, while
  \<open>Ship.hyperspace\<close>, which the world does not call, would set it to 1.
\<close>

theorem hyperspace_grants_no_invulnerability:
  "s_alive (ship W0) \<and> s_invuln (ship W0) = 0
   \<and> s_invuln (ship (hyperspace C0 E0 W0)) = 0
   \<and> s_invuln (Ship_hyperspace C0 E0 (tick (pg W0)) (ship W0)) = 1"
  by (simp add: hyperspace_def Ship_hyperspace_def W0_def Ship_def Let_def)

section \<open>The UFO's audio channel\<close>

text \<open>
  C1 says that the channel a UFO acquired is released exactly once on every path that
  removes the UFO. The code evaluated on two such paths, for the sample world whose one
  UFO plays on channel 7. When the ship dies with no lives left, the reset discards the
  UFO group and the sound log gains no stop of channel 7: zero releases. When the UFO
  crashes into an asteroid (the ship being protected), \<open>groupcollide\<close> kills the UFO,
  which stops the channel, and the loop over the crashes stops it again: two releases.
\<close>

theorem ufo_channel_release_counts:
  "ufos W2 = [U0] \<and> u_channel U0 = Some 7
   \<and> map_option (\<lambda>w. (ufos w, audio (pg w))) (handle_collisions C0 E0 (W2\<lparr>lives := 0\<rparr>))
       = Some ([], [ChannelPlay 7 FLY_BIG, Play BREAK_LARGE])
   \<and> map_option (\<lambda>w. (ufos w, audio (pg w))) (handle_collisions C0 E0 (W2\<lparr>safe := 2\<rparr>))
       = Some ([], [ChannelPlay 7 FLY_BIG, ChannelStop 7, ChannelStop 7, Play BREAK_LARGE])"
proof -
  from sample_reset_W2 obtain w' where
    h: "handle_collisions C0 E0 (W2\<lparr>lives := 0\<rparr>) = Some w'" and
    W: "World C0 E0 ((pg W2)\<lparr>audio := audio (pg W2) @ [Play BREAK_LARGE]\<rparr>) = Some w'"
    by blast
  have "ufos w' = []" "audio (pg w') = [ChannelPlay 7 FLY_BIG, Play BREAK_LARGE]"
    using World_fields(7,11) [OF W] by (simp_all add: W2_def)
  with h have r: "map_option (\<lambda>w. (ufos w, audio (pg w))) (handle_collisions C0 E0 (W2\<lparr>lives := 0\<rparr>))
       = Some ([], [ChannelPlay 7 FLY_BIG, Play BREAK_LARGE])"
    by simp
  from sample_crash_returns obtain w2 where c: "handle_collisions C0 E0 (W2\<lparr>safe := 2\<rparr>) = Some w2" ..
  from sample_crash [OF c] c
  have k: "map_option (\<lambda>w. (ufos w, audio (pg w))) (handle_collisions C0 E0 (W2\<lparr>safe := 2\<rparr>))
       = Some ([], [ChannelPlay 7 FLY_BIG, ChannelStop 7, ChannelStop 7, Play BREAK_LARGE])"
    by simp
  have "ufos W2 = [U0]" "u_channel U0 = Some 7" by (simp_all add: W2_def U0_def)
  with r k show ?thesis by simp
qed

section \<open>Score for every split\<close>

text \<open>
  C10. Splitting an asteroid always adds the score configured for its size, and a crash
  of a UFO adds the scores of all the asteroids it splits. So the score can rise with no
  player bullet in the world: in the sample world with the UFO on the asteroid and no
  bullets, one pass of \<open>handle_collisions\<close> takes the score from 0 to 20.
\<close>

theorem split_asteroid_awards_score:
  "score (split_asteroid C E a w) = score w + spec_score (AST_SIZES C (a_size a))
   \<and> score (crash C E (u, as) w) =
       score w + sum_list (map (\<lambda>a. spec_score (AST_SIZES C (a_size a))) as)
   \<and> bullets (W2\<lparr>safe := 2\<rparr>) = [] \<and> score (W2\<lparr>safe := 2\<rparr>) = 0
   \<and> map_option (\<lambda>w. (bullets w, score w)) (handle_collisions C0 E0 (W2\<lparr>safe := 2\<rparr>))
       = Some ([], 20)"
proof -
  from sample_crash_returns obtain w2 where c: "handle_collisions C0 E0 (W2\<lparr>safe := 2\<rparr>) = Some w2" ..
  from sample_crash [OF c] c
  have "map_option (\<lambda>w. (bullets w, score w)) (handle_collisions C0 E0 (W2\<lparr>safe := 2\<rparr>))
       = Some ([], 20)"
    by simp
  moreover have "bullets (W2\<lparr>safe := 2\<rparr>) = []" "score (W2\<lparr>safe := 2\<rparr>) = 0"
    by (simp_all add: W2_def W1_def W0_def)
  ultimately show ?thesis by simp
qed

section \<open>Player bullets against asteroids\<close>

text \<open>
  C9. The test for a player bullet and an asteroid accepts exactly when the distance of
  the centres is strictly below the asteroid's radius, which the constructor takes from
  the size table; the bullet's radius plays no part. In a world whose bullets have
  distinct identities, part 1 of the collisions removes exactly the bullets that the test
  accepts for some asteroid. Every asteroid recorded as hit is an asteroid of the world
  that some bullet touches, the first asteroid a bullet touches is always recorded, and
  every recorded asteroid is split: it leaves the group and one child per entry of its
  split list appears at its position, with the sizes of that list.
\<close>

theorem bullets_vs_asteroids_hits:
  assumes "distinct (map b_id (bullets w))"
  shows "(collided_ab a b \<longleftrightarrow> vlength (vsub (a_pos a) (b_pos b)) < a_r a)
     \<and> a_r (fst (Asteroid C E x p v sz)) = spec_r (AST_SIZES C sz)
     \<and> bullets (bullets_vs_asteroids C E w) =
         filter (\<lambda>b. \<not> (\<exists>a\<in>set (asteroids w). collided_ab a b)) (bullets w)
     \<and> bullets_vs_asteroids C E w =
         fold (split_asteroid C E) (fst (groupcollide_ab (asteroids w) w))
              (snd (groupcollide_ab (asteroids w) w))
     \<and> (\<forall>h\<in>set (fst (groupcollide_ab (asteroids w) w)).
           h \<in> set (asteroids w) \<and> (\<exists>b\<in>set (bullets w). collided_ab h b))
     \<and> (\<forall>b\<in>set (bullets w). \<forall>h. find (\<lambda>a. collided_ab a b) (asteroids w) = Some h
           \<longrightarrow> h \<in> set (fst (groupcollide_ab (asteroids w) w)))
     \<and> (\<exists>cs. asteroids (split_asteroid C E a w) =
                 filter (\<lambda>x. a_id x \<noteq> a_id a) (asteroids w) @ cs
             \<and> map a_size cs = spec_split (AST_SIZES C (a_size a))
             \<and> map a_pos cs = map (\<lambda>_. a_pos a) (spec_split (AST_SIZES C (a_size a))))"
proof (intro conjI)
  show "collided_ab a b \<longleftrightarrow> vlength (vsub (a_pos a) (b_pos b)) < a_r a"
    by (simp add: collided_ab_def)
  show "a_r (fst (Asteroid C E x p v sz)) = spec_r (AST_SIZES C sz)"
    by (simp add: Asteroid_def Let_def)
  show split: "bullets_vs_asteroids C E w =
      fold (split_asteroid C E) (fst (groupcollide_ab (asteroids w) w))
           (snd (groupcollide_ab (asteroids w) w))"
    by (simp add: bullets_vs_asteroids_def case_prod_beta)
  show "bullets (bullets_vs_asteroids C E w) =
      filter (\<lambda>b. \<not> (\<exists>a\<in>set (asteroids w). collided_ab a b)) (bullets w)"
    unfolding split using groupcollide_ab_bullets [OF assms, of "asteroids w"] by simp
  show "\<forall>h\<in>set (fst (groupcollide_ab (asteroids w) w)).
      h \<in> set (asteroids w) \<and> (\<exists>b\<in>set (bullets w). collided_ab h b)"
    using groupcollide_ab_hits by blast
  show "\<forall>b\<in>set (bullets w). \<forall>h. find (\<lambda>a. collided_ab a b) (asteroids w) = Some h
      \<longrightarrow> h \<in> set (fst (groupcollide_ab (asteroids w) w))"
    using groupcollide_ab_first [OF assms] by blast
  show "\<exists>cs. asteroids (split_asteroid C E a w) =
                 filter (\<lambda>x. a_id x \<noteq> a_id a) (asteroids w) @ cs
             \<and> map a_size cs = spec_split (AST_SIZES C (a_size a))
             \<and> map a_pos cs = map (\<lambda>_. a_pos a) (spec_split (AST_SIZES C (a_size a)))"
    by (rule split_asteroid_asteroids)
qed

theorem bullets_vs_asteroids_hits_witness:
  "distinct (map b_id (bullets W3))
   \<and> collided_ab A0 B0
   \<and> \<not> collided_ab A0 (Bullet C0 E0 3 (526, 360) (0, 0))
   \<and> bullets (bullets_vs_asteroids C0 E0 W3) = []
   \<and> A0 \<in> set (fst (groupcollide_ab (asteroids W3) W3))"
proof -
  have d: "distinct (map b_id (bullets W3))" by (simp add: W3_def)
  have w: "bullets W3 = [B0]" "asteroids W3 = [A0]" by (simp_all add: W3_def W1_def)
  have pa: "a_pos A0 = (480, 360)" "a_r A0 = 46"
    by (simp_all add: A0_def Asteroid_def C0_def Let_def)
  note t = bullets_vs_asteroids_hits [OF d, of A0 _ C0 E0]
  have c: "collided_ab A0 B0"
    using t [of B0] pa by (simp add: B0_def Bullet_def vsub_def vlength_less_iff)
  have n: "\<not> collided_ab A0 (Bullet C0 E0 3 (526, 360) (0, 0))"
    using t [of "Bullet C0 E0 3 (526, 360) (0, 0)"] pa
    by (simp add: Bullet_def vsub_def vlength_less_iff)
  note t3 = t [of B0, THEN conjunct2, THEN conjunct2, THEN conjunct1]
  note t6 = t [of B0, THEN conjunct2, THEN conjunct2, THEN conjunct2, THEN conjunct2,
      THEN conjunct2, THEN conjunct1]
  have e: "bullets (bullets_vs_asteroids C0 E0 W3) = []"
    using c by (simp add: t3 w)
  have m: "B0 \<in> set (bullets W3)" by (simp add: w)
  have "find (\<lambda>a. collided_ab a B0) (asteroids W3) = Some A0" using c by (simp add: w)
  with t6 m have f: "A0 \<in> set (fst (groupcollide_ab (asteroids W3) W3))"
    by blast
  from d c n e f show ?thesis by blast
qed
end
